theory Spec2Isabelle
  imports Complex_Main "HOL-Library.Sublist"
begin

section \<open>Python values\<close>

text \<open>
  A Python \<^verbatim>\<open>str\<close> is a sequence of Unicode code points, so a string is a list of
  naturals and \<open>length\<close> is Python's \<^verbatim>\<open>len\<close>. \<open>py\<close> embeds an ASCII literal.
\<close>

type_synonym pystr = "nat list"

definition py :: "string \<Rightarrow> pystr" where
  "py s = map of_char s"

text \<open>
  Numbers as the bot compares them: a finite value, the two infinities and NaN (a
  \<^verbatim>\<open>float\<close> can be any of them; every comparison with NaN is false).
\<close>

datatype pynum = Fin rat | PosInf | NegInf | NaN

text \<open>
  Values that reach the bot from outside: the text of an update, the JSON a collaborator
  returns, and the opaque objects of the wallet and ledger libraries (\<open>VObj\<close>).
  A dictionary is the association list of its items.
\<close>

datatype pyval =
    VNone
  | VBool bool
  | VNum pynum
  | VStr pystr
  | VList "pyval list"
  | VDict "(pystr \<times> pyval) list"
  | VObj nat

text \<open>Truthiness, as \<^verbatim>\<open>if x:\<close> and \<^verbatim>\<open>not x\<close> test it.\<close>

fun truthy :: "pyval \<Rightarrow> bool" where
  "truthy VNone = False"
| "truthy (VBool b) = b"
| "truthy (VNum (Fin q)) = (q \<noteq> 0)"
| "truthy (VNum _) = True"
| "truthy (VStr s) = (s \<noteq> [])"
| "truthy (VList l) = (l \<noteq> [])"
| "truthy (VDict d) = (d \<noteq> [])"
| "truthy (VObj _) = True"

section \<open>Character classes\<close>

text \<open>\<^verbatim>\<open>[\x00-\x1f\x7f-\x9f]\<close>\<close>

definition is_control :: "nat \<Rightarrow> bool" where
  "is_control c \<longleftrightarrow> c \<le> 31 \<or> (127 \<le> c \<and> c \<le> 159)"

text \<open>
  The code points for which \<^verbatim>\<open>str.isspace\<close> holds; \<^verbatim>\<open>\s\<close> in a \<^verbatim>\<open>str\<close>
  pattern, \<^verbatim>\<open>str.strip()\<close> and \<^verbatim>\<open>str.split()\<close> all use this set.
\<close>

definition is_space :: "nat \<Rightarrow> bool" where
  "is_space c \<longleftrightarrow> (9 \<le> c \<and> c \<le> 13) \<or> (28 \<le> c \<and> c \<le> 32) \<or> c = 133 \<or> c = 160
     \<or> c = 5760 \<or> (8192 \<le> c \<and> c \<le> 8202) \<or> c = 8232 \<or> c = 8233 \<or> c = 8239
     \<or> c = 8287 \<or> c = 12288"

text \<open>\<^verbatim>\<open>[A-Z2-7]\<close>, \<^verbatim>\<open>[A-Za-z]\<close>, \<^verbatim>\<open>[a-zA-Z0-9\s]\<close>\<close>

definition base32 :: "nat \<Rightarrow> bool" where
  "base32 c \<longleftrightarrow> (65 \<le> c \<and> c \<le> 90) \<or> (50 \<le> c \<and> c \<le> 55)"

definition ascii_letter :: "nat \<Rightarrow> bool" where
  "ascii_letter c \<longleftrightarrow> (65 \<le> c \<and> c \<le> 90) \<or> (97 \<le> c \<and> c \<le> 122)"

definition ascii_digit :: "nat \<Rightarrow> bool" where
  "ascii_digit c \<longleftrightarrow> 48 \<le> c \<and> c \<le> 57"

definition name_char :: "nat \<Rightarrow> bool" where
  "name_char c \<longleftrightarrow> ascii_letter c \<or> ascii_digit c \<or> is_space c"

text \<open>
  \<^verbatim>\<open>\d\<close> and \<^verbatim>\<open>\w\<close> in a \<^verbatim>\<open>str\<close> pattern follow the Unicode database of the
  interpreter. Their ASCII part is fixed; the part beyond ASCII is a table of the runtime,
  taken as a parameter.
\<close>

record unicode =
  decimal_beyond_ascii :: "nat \<Rightarrow> bool"
  word_beyond_ascii :: "nat \<Rightarrow> bool"

definition is_decimal :: "unicode \<Rightarrow> nat \<Rightarrow> bool" where
  "is_decimal U c = (if c < 128 then ascii_digit c else decimal_beyond_ascii U c)"

definition is_word :: "unicode \<Rightarrow> nat \<Rightarrow> bool" where
  "is_word U c = (if c < 128 then ascii_digit c \<or> ascii_letter c \<or> c = 95
                  else word_beyond_ascii U c)"

text \<open>\<^verbatim>\<open>[\d\.]\<close> and \<^verbatim>\<open>.\<close> (any code point but the line feed)\<close>

definition decimal_or_dot :: "unicode \<Rightarrow> nat \<Rightarrow> bool" where
  "decimal_or_dot U c \<longleftrightarrow> is_decimal U c \<or> c = 46"

definition not_newline :: "nat \<Rightarrow> bool" where
  "not_newline c \<longleftrightarrow> c \<noteq> 10"

text \<open>
  Matching under \<^verbatim>\<open>re.IGNORECASE\<close>. The patterns of the bot hold ASCII literals and
  ASCII ranges only. Besides the two cases of an ASCII letter, four code points beyond ASCII
  fold onto one: U+0130 and U+0131 onto \<open>i\<close>, U+017F onto \<open>s\<close>, U+212A onto \<open>k\<close>.
\<close>

definition ascii_lower :: "nat \<Rightarrow> nat" where
  "ascii_lower c = (if 65 \<le> c \<and> c \<le> 90 then c + 32 else c)"

definition ascii_upper :: "nat \<Rightarrow> nat" where
  "ascii_upper c = (if 97 \<le> c \<and> c \<le> 122 then c - 32 else c)"

definition ci_fold :: "nat \<Rightarrow> nat" where
  "ci_fold c = (if c = 304 \<or> c = 305 then 105 else if c = 383 then 115
                else if c = 8490 then 107 else ascii_lower c)"

definition ci_eq :: "nat \<Rightarrow> nat \<Rightarrow> bool" where
  "ci_eq l c \<longleftrightarrow> ci_fold c = ci_fold l"

definition ci_in :: "(nat \<Rightarrow> bool) \<Rightarrow> nat \<Rightarrow> bool" where
  "ci_in P c \<longleftrightarrow> P c \<or> P (ci_fold c) \<or> P (ascii_upper (ci_fold c))"

section \<open>Regular expressions\<close>

text \<open>
  The fragment of \<^verbatim>\<open>re\<close> that the bot's patterns use: a class of code points,
  concatenation, alternation, a counted repetition \<open>Rep lo hi greedy r\<close>
  (\<open>hi = None\<close> is unbounded), a named group, the empty pattern and \<^verbatim>\<open>$\<close>.
\<close>

datatype regex =
    Cls "nat \<Rightarrow> bool"
  | Cat regex regex
  | Or regex regex
  | Rep nat "nat option" bool regex
  | Grp string regex
  | Eps
  | Eol

type_synonym groups = "string \<rightharpoonup> pystr"

text \<open>
  The matcher is the backtracking machine of \<^verbatim>\<open>re\<close>: a stack of what is still to be
  matched, tried left to right, the first alternative first, a greedy repetition longest
  first and a lazy one shortest first. \<open>EndGrp\<close> closes a group that was opened at the
  text \<open>s0\<close>; \<open>Guard\<close> stops an unbounded repetition whose body matched the empty
  string.
\<close>

datatype frame = R regex | EndGrp string pystr | Guard nat

fun rsize :: "regex \<Rightarrow> nat" where
  "rsize (Cat a b) = Suc (rsize a + rsize b)"
| "rsize (Or a b) = Suc (rsize a + rsize b)"
| "rsize (Rep lo hi g r) = Suc (Suc lo * Suc (rsize r))"
| "rsize (Grp n r) = Suc (Suc (rsize r))"
| "rsize _ = 1"

fun weight :: "nat \<Rightarrow> frame list \<Rightarrow> nat" where
  "weight L [] = 0"
| "weight L (R r # k) = rsize r + weight L k"
| "weight L (EndGrp n s # k) = Suc (weight L k)"
| "weight L (Guard n # k) = Suc (if n \<le> L then 0 else weight L k)"

fun dec :: "nat option \<Rightarrow> nat option" where
  "dec None = None"
| "dec (Some h) = Some (h - 1)"

function (sequential) bt :: "frame list \<Rightarrow> pystr \<Rightarrow> groups \<Rightarrow> (pystr \<times> groups) option" where
  "bt [] s g = Some (s, g)"
| "bt (R (Cls P) # k) s g =
     (case s of [] \<Rightarrow> None | c # cs \<Rightarrow> if P c then bt k cs g else None)"
| "bt (R (Cat a b) # k) s g = bt (R a # R b # k) s g"
| "bt (R (Or a b) # k) s g =
     (case bt (R a # k) s g of Some x \<Rightarrow> Some x | None \<Rightarrow> bt (R b # k) s g)"
| "bt (R (Grp n r) # k) s g = bt (R r # EndGrp n s # k) s g"
| "bt (EndGrp n s0 # k) s g = bt k s (g(n \<mapsto> take (length s0 - length s) s0))"
| "bt (R Eps # k) s g = bt k s g"
| "bt (R Eol # k) s g = (if s = [] \<or> s = [10] then bt k s g else None)"
| "bt (R (Rep (Suc lo) hi gr r) # k) s g =
     (if hi = Some 0 then None else bt (R r # R (Rep lo (dec hi) gr r) # k) s g)"
| "bt (R (Rep 0 hi gr r) # k) s g =
     (if hi = Some 0 then bt k s g
      else if gr then
        (case bt (R r # Guard (length s) # R (Rep 0 (dec hi) gr r) # k) s g of
           Some x \<Rightarrow> Some x
         | None \<Rightarrow> bt k s g)
      else
        (case bt k s g of
           Some x \<Rightarrow> Some x
         | None \<Rightarrow> bt (R r # Guard (length s) # R (Rep 0 (dec hi) gr r) # k) s g))"
| "bt (Guard n # k) s g = (if length s < n then bt k s g else None)"
  by pat_completeness auto
termination
  by (relation "inv_image (less_than <*lex*> less_than)
        (\<lambda>(k, s, g). (length s, weight (length s) k))") auto

text \<open>
  \<^verbatim>\<open>re.match\<close> tries the pattern at the start of the text; the result is the text left
  after the match and the groups. \<^verbatim>\<open>re.search\<close> tries every start from the left.
  \<^verbatim>\<open>re.sub(pattern, '', text)\<close> deletes the matches it finds from the left; a match of
  the empty string deletes nothing and the scan moves on by one code point.
\<close>

definition re_match :: "regex \<Rightarrow> pystr \<Rightarrow> (pystr \<times> groups) option" where
  "re_match r s = bt [R r] s Map.empty"

fun re_search :: "regex \<Rightarrow> pystr \<Rightarrow> groups option" where
  "re_search r [] = map_option snd (re_match r [])"
| "re_search r (c # cs) =
     (case re_match r (c # cs) of Some (s', g) \<Rightarrow> Some g | None \<Rightarrow> re_search r cs)"

function re_sub :: "regex \<Rightarrow> pystr \<Rightarrow> pystr" where
  "re_sub r [] = []"
| "re_sub r (c # cs) =
     (case re_match r (c # cs) of
        Some (s', g) \<Rightarrow> if length s' < Suc (length cs) then re_sub r s' else c # re_sub r cs
      | None \<Rightarrow> c # re_sub r cs)"
  by pat_completeness auto
termination
  by (relation "measure (\<lambda>(r, s). length s)") auto

text \<open>Pattern syntax: a literal, a class, both under the \<^verbatim>\<open>(?i)\<close> flag \<open>ic\<close> or not.\<close>

definition lit :: "bool \<Rightarrow> nat \<Rightarrow> regex" where
  "lit ic l = Cls (if ic then ci_eq l else (\<lambda>c. c = l))"

definition cls :: "bool \<Rightarrow> (nat \<Rightarrow> bool) \<Rightarrow> regex" where
  "cls ic P = Cls (if ic then ci_in P else P)"

fun re_cat :: "regex list \<Rightarrow> regex" where
  "re_cat [] = Eps"
| "re_cat [r] = r"
| "re_cat (r # rs) = Cat r (re_cat rs)"

fun re_alt :: "regex list \<Rightarrow> regex" where
  "re_alt [] = Eps"
| "re_alt [r] = r"
| "re_alt (r # rs) = Or r (re_alt rs)"

definition re_word :: "bool \<Rightarrow> string \<Rightarrow> regex" where
  "re_word ic w = re_cat (map (\<lambda>c. lit ic (of_char c)) w)"

definition re_plus :: "regex \<Rightarrow> regex" where
  "re_plus r = Rep 1 None True r"

definition re_star :: "regex \<Rightarrow> regex" where
  "re_star r = Rep 0 None True r"

definition re_opt :: "regex \<Rightarrow> regex" where
  "re_opt r = Rep 0 (Some 1) True r"

definition ws :: regex where
  "ws = Cls is_space"

section \<open>Sanitizer and validators\<close>

definition MAX_MESSAGE_LENGTH :: nat where
  "MAX_MESSAGE_LENGTH = 1000"

definition MAX_PASSWORD_ATTEMPTS :: nat where
  "MAX_PASSWORD_ATTEMPTS = 3"

definition MAX_TRANSACTIONS_PER_HOUR :: nat where
  "MAX_TRANSACTIONS_PER_HOUR = 10"

text \<open>
  \<^verbatim>\<open>dangerous_patterns\<close>, matched with \<^verbatim>\<open>flags=re.IGNORECASE\<close>:
  \<^verbatim>\<open><script.*?</script>\<close>, \<^verbatim>\<open>javascript:\<close>, \<^verbatim>\<open>data:\<close>, \<^verbatim>\<open>vbscript:\<close>,
  \<^verbatim>\<open>onload=\<close>, \<^verbatim>\<open>onerror=\<close>, \<^verbatim>\<open>eval\(\<close>, \<^verbatim>\<open>exec\(\<close>.
\<close>

definition dangerous_patterns :: "regex list" where
  "dangerous_patterns =
     [re_cat [re_word True ''<script'', Rep 0 None False (Cls not_newline),
              re_word True ''</script>''],
      re_word True ''javascript:'',
      re_word True ''data:'',
      re_word True ''vbscript:'',
      re_word True ''onload='',
      re_word True ''onerror='',
      re_word True ''eval('',
      re_word True ''exec('']"

text \<open>\<^verbatim>\<open>str.strip()\<close>\<close>

definition py_strip :: "pystr \<Rightarrow> pystr" where
  "py_strip s = rev (dropWhile is_space (rev (dropWhile is_space s)))"

text \<open>
  \<^verbatim>\<open>
  def sanitize_input(text):
      if not text or not isinstance(text, str):
          return ""
      sanitized = re.sub(r'[\x00-\x1f\x7f-\x9f]', '', text)
      sanitized = sanitized[:MAX_MESSAGE_LENGTH]
      for pattern in dangerous_patterns:
          sanitized = re.sub(pattern, '', sanitized, flags=re.IGNORECASE)
      return sanitized.strip()
  \<close>
\<close>

definition sanitize_input :: "pyval \<Rightarrow> pystr" where
  "sanitize_input text =
     (case text of
        VStr s \<Rightarrow>
          if s = [] then []
          else
            let sanitized = re_sub (Cls is_control) s;
                sanitized = take MAX_MESSAGE_LENGTH sanitized;
                sanitized = foldl (\<lambda>acc pattern. re_sub pattern acc) sanitized dangerous_patterns
            in py_strip sanitized
      | _ \<Rightarrow> [])"

text \<open>
  \<^verbatim>\<open>
  def validate_algorand_address(address):
      if not address or not isinstance(address, str):
          return False
      if len(address) != 58:
          return False
      if not re.match(r'^[A-Z2-7]{58}$', address):
          return False
      return True
  \<close>
  \<^verbatim>\<open>re.match\<close> starts at the beginning of the text, where \<^verbatim>\<open>^\<close> holds.
\<close>

definition validate_algorand_address :: "pyval \<Rightarrow> bool" where
  "validate_algorand_address addr =
     (case addr of
        VStr s \<Rightarrow>
          if s = [] then False
          else if length s \<noteq> 58 then False
          else if re_match (Cat (Rep 58 (Some 58) True (cls False base32)) Eol) s = None then False
          else True
      | _ \<Rightarrow> False)"

section \<open>Session store\<close>

text \<open>
  A \<^verbatim>\<open>datetime\<close> is the number of microseconds the naive local clock shows;
  \<^verbatim>\<open>isoformat\<close> and \<^verbatim>\<open>fromisoformat\<close> are inverse to each other, so a stored stamp
  is the reading itself. \<open>hours n\<close> is \<^verbatim>\<open>timedelta(hours=n)\<close>.
\<close>

type_synonym time = int

definition hours :: "int \<Rightarrow> time" where
  "hours n = n * 3600000000"

definition SESSION_TIMEOUT_HOURS :: int where
  "SESSION_TIMEOUT_HOURS = 24"

text \<open>
  A session record, as the bot writes it: \<^verbatim>\<open>address\<close> and \<^verbatim>\<open>encrypted_mnemonic\<close>
  from the wallet collaborator, the stamps \<^verbatim>\<open>created_at\<close> or \<^verbatim>\<open>connected_at\<close>,
  \<^verbatim>\<open>last_activity\<close>, and \<^verbatim>\<open>recent_transactions\<close> once a transaction was counted.
  The store maps \<^verbatim>\<open>str(user_id)\<close> to the record; the key is the user id.
\<close>

record session =
  address :: pyval
  encrypted_mnemonic :: pyval
  created_at :: "time option"
  connected_at :: "time option"
  last_activity :: "time option"
  recent_transactions :: "time list option"

type_synonym sessions = "int \<rightharpoonup> session"

text \<open>
  The files the bot touches: \<^verbatim>\<open>telegram_sessions.json\<close>, \<^verbatim>\<open>telegram_sessions.json.tmp\<close>
  and \<^verbatim>\<open>telegram_sessions.json.backup.<seconds>\<close>. The content of a file is recorded by
  what \<^verbatim>\<open>json.load\<close> does with it:
  \<^item> \<open>Store m\<close>: it returns a JSON object, read by the schema of the store as the
    session mapping \<open>m\<close> (this is what \<^verbatim>\<open>save_sessions\<close> writes);
  \<^item> \<open>Other v\<close>: it returns a JSON value that is not an object (\<^verbatim>\<open>null\<close>, a boolean, a
    number, a string or an array);
  \<^item> \<open>Garbage t\<close>: it raises \<^verbatim>\<open>JSONDecodeError\<close> on the text \<open>t\<close>;
  \<^item> \<open>Unloadable t\<close>: it raises another exception, as \<^verbatim>\<open>UnicodeDecodeError\<close> on bytes
    that are not UTF-8 or \<^verbatim>\<open>RecursionError\<close> on brackets nested deeper than the interpreter
    allows.
\<close>

datatype path = SESSIONS_FILE | TEMP_FILE | BACKUP_FILE int

datatype foreign = FNull | FBool bool | FNum pynum | FStr pystr | FList "pyval list"

datatype content = Store sessions | Other foreign | Garbage pystr | Unloadable pystr

type_synonym files = "path \<rightharpoonup> content"

text \<open>What \<^verbatim>\<open>load_sessions\<close> returns: a session mapping, or the foreign value of the file.\<close>

datatype loaded = Sessions sessions | Foreign foreign

text \<open>
  \<^verbatim>\<open>str(user_id)\<close>, the key of a user, and \<^verbatim>\<open>user_key in sessions\<close> on a foreign value:
  membership in an array, a substring test on a string, \<^verbatim>\<open>TypeError\<close> (\<open>None\<close>) on
  \<^verbatim>\<open>null\<close>, a boolean or a number.
\<close>

fun digits :: "nat \<Rightarrow> pystr" where
  "digits n = (if n < 10 then [48 + n] else digits (n div 10) @ [48 + n mod 10])"

declare digits.simps [simp del]

definition py_str :: "int \<Rightarrow> pystr" where
  "py_str i = (if i < 0 then 45 # digits (nat (- i)) else digits (nat i))"

fun foreign_in :: "pystr \<Rightarrow> foreign \<Rightarrow> bool option" where
  "foreign_in key (FList l) = Some (VStr key \<in> set l)"
| "foreign_in key (FStr s) = Some (sublist key s)"
| "foreign_in key _ = None"

text \<open>
  \<^verbatim>\<open>
  def load_sessions():
      try:
          if os.path.exists(SESSIONS_FILE):
              with open(SESSIONS_FILE, 'r') as f:
                  return json.load(f)
      except (json.JSONDecodeError, IOError) as e:
          if os.path.exists(SESSIONS_FILE):
              backup_name = f"{SESSIONS_FILE}.backup.{int(time.time())}"
              os.rename(SESSIONS_FILE, backup_name)
      return {}
  \<close>
  \<open>unix\<close> is \<^verbatim>\<open>int(time.time())\<close>. The result is what the function returns, or
  \<open>None\<close> when an exception leaves it, and the files afterwards. Only
  \<^verbatim>\<open>JSONDecodeError\<close> (and \<^verbatim>\<open>IOError\<close>) are caught: any other exception of
  \<^verbatim>\<open>json.load\<close> leaves the function, and the file is not renamed.
\<close>

definition load_sessions :: "int \<Rightarrow> files \<Rightarrow> loaded option \<times> files" where
  "load_sessions unix fs =
     (case fs SESSIONS_FILE of
        None \<Rightarrow> (Some (Sessions Map.empty), fs)
      | Some (Store m) \<Rightarrow> (Some (Sessions m), fs)
      | Some (Other v) \<Rightarrow> (Some (Foreign v), fs)
      | Some (Garbage t) \<Rightarrow>
          (Some (Sessions Map.empty),
           (fs(SESSIONS_FILE := None))(BACKUP_FILE unix \<mapsto> Garbage t))
      | Some (Unloadable t) \<Rightarrow> (None, fs))"

text \<open>
  \<^verbatim>\<open>
  def save_sessions(sessions):
      try:
          temp_file = f"{SESSIONS_FILE}.tmp"
          with open(temp_file, 'w') as f:
              json.dump(sessions, f)
          os.replace(temp_file, SESSIONS_FILE)
      except IOError as e:
          logger.error(f"Failed to save sessions: {e}")
  \<close>
  \<open>disk_ok\<close> says whether the temporary file can be opened; when it cannot, the
  \<^verbatim>\<open>IOError\<close> is swallowed and the files stay as they are.
\<close>

definition save_sessions :: "bool \<Rightarrow> sessions \<Rightarrow> files \<Rightarrow> files" where
  "save_sessions disk_ok sessions fs =
     (if disk_ok then
        let fs1 = fs(TEMP_FILE \<mapsto> Store sessions)
        in (fs1(TEMP_FILE := None))(SESSIONS_FILE \<mapsto> Store sessions)
      else fs)"

text \<open>
  \<^verbatim>\<open>
  def check_user_rate_limit(user_id, action_type="general"):
      sessions = load_sessions()
      user_key = str(user_id)
      current_time = datetime.now()
      if user_key not in sessions:
          return True
      user_session = sessions[user_key]
      if action_type == "transaction":
          recent_transactions = user_session.get('recent_transactions', [])
          recent_transactions = [
              tx_time for tx_time in recent_transactions
              if datetime.fromisoformat(tx_time) > current_time - timedelta(hours=1)
          ]
          if len(recent_transactions) >= MAX_TRANSACTIONS_PER_HOUR:
              return False
          recent_transactions.append(current_time.isoformat())
          user_session['recent_transactions'] = recent_transactions
          sessions[user_key] = user_session
          save_sessions(sessions)
      return True
  \<close>
  The result is \<open>None\<close> when an exception leaves the function: the one of
  \<^verbatim>\<open>load_sessions\<close>, or the \<^verbatim>\<open>TypeError\<close> of \<^verbatim>\<open>in\<close> or of \<^verbatim>\<open>sessions[user_key]\<close> on a
  foreign value.
\<close>

definition check_user_rate_limit ::
  "int \<Rightarrow> time \<Rightarrow> bool \<Rightarrow> int \<Rightarrow> string \<Rightarrow> files \<Rightarrow> bool option \<times> files" where
  "check_user_rate_limit unix current_time disk_ok user_id action_type fs =
     (case load_sessions unix fs of
        (None, fs1) \<Rightarrow> (None, fs1)
      | (Some (Foreign v), fs1) \<Rightarrow>
          (case foreign_in (py_str user_id) v of
             None \<Rightarrow> (None, fs1)
           | Some False \<Rightarrow> (Some True, fs1)
           | Some True \<Rightarrow> (None, fs1))
      | (Some (Sessions sessions), fs1) \<Rightarrow>
          (case sessions user_id of
             None \<Rightarrow> (Some True, fs1)
           | Some user_session \<Rightarrow>
               if action_type = ''transaction'' then
                 let recent =
                       (case recent_transactions user_session of None \<Rightarrow> [] | Some ts \<Rightarrow> ts);
                     recent = filter (\<lambda>tx_time. tx_time > current_time - hours 1) recent
                 in if length recent \<ge> MAX_TRANSACTIONS_PER_HOUR then (Some False, fs1)
                    else
                      let recent = recent @ [current_time];
                          user_session = user_session\<lparr>recent_transactions := Some recent\<rparr>;
                          sessions = sessions(user_id \<mapsto> user_session)
                      in (Some True, save_sessions disk_ok sessions fs1)
               else (Some True, fs1)))"

text \<open>
  \<^verbatim>\<open>
  def validate_session(user_id):
      sessions = load_sessions()
      user_key = str(user_id)
      if user_key not in sessions:
          return False
      user_session = sessions[user_key]
      if 'last_activity' in user_session:
          last_activity = datetime.fromisoformat(user_session['last_activity'])
          if datetime.now() - last_activity > timedelta(hours=SESSION_TIMEOUT_HOURS):
              del sessions[user_key]
              save_sessions(sessions)
              return False
      user_session['last_activity'] = datetime.now().isoformat()
      sessions[user_key] = user_session
      save_sessions(sessions)
      return True
  \<close>
  The clock is read twice: \<open>now_expiry\<close> for the expiry test, \<open>now_activity\<close> for the
  new stamp; the new stamp is not compared with the one it replaces. The result is
  \<open>None\<close> when an exception leaves the function, as in \<open>check_user_rate_limit\<close>.
\<close>

definition validate_session ::
  "int \<Rightarrow> time \<Rightarrow> time \<Rightarrow> bool \<Rightarrow> int \<Rightarrow> files \<Rightarrow> bool option \<times> files" where
  "validate_session unix now_expiry now_activity disk_ok user_id fs =
     (case load_sessions unix fs of
        (None, fs1) \<Rightarrow> (None, fs1)
      | (Some (Foreign v), fs1) \<Rightarrow>
          (case foreign_in (py_str user_id) v of
             None \<Rightarrow> (None, fs1)
           | Some False \<Rightarrow> (Some False, fs1)
           | Some True \<Rightarrow> (None, fs1))
      | (Some (Sessions sessions), fs1) \<Rightarrow>
          (case sessions user_id of
             None \<Rightarrow> (Some False, fs1)
           | Some user_session \<Rightarrow>
               if (case last_activity user_session of
                     None \<Rightarrow> False
                   | Some stamp \<Rightarrow> now_expiry - stamp > hours SESSION_TIMEOUT_HOURS)
               then (Some False, save_sessions disk_ok (sessions(user_id := None)) fs1)
               else
                 let user_session = user_session\<lparr>last_activity := Some now_activity\<rparr>;
                     sessions = sessions(user_id \<mapsto> user_session)
                 in (Some True, save_sessions disk_ok sessions fs1)))"

text \<open>What a reader of the store sees for one user.\<close>

definition stored_session :: "files \<Rightarrow> int \<Rightarrow> session option" where
  "stored_session fs user_id =
     (case fs SESSIONS_FILE of Some (Store m) \<Rightarrow> m user_id | _ \<Rightarrow> None)"

section \<open>Environment of one update\<close>

text \<open>
  Everything the bot reads from outside while it handles one message: the interpreter's
  tables, the clock, the disk, and the answers of the collaborators. A call that raises
  answers \<open>None\<close>. The chat transport and the log files are not modelled: a reply is
  an output of the handler and is assumed to be delivered.
\<close>

text \<open>The dictionary \<^verbatim>\<open>create_wallet\<close> and \<^verbatim>\<open>connect_wallet\<close> return.\<close>

record wallet_data =
  wd_address :: pyval
  wd_mnemonic :: pyval
  wd_encrypted_mnemonic :: pyval

record env =
  uni :: unicode
  float_of_text :: "pystr \<Rightarrow> pynum option"
  text_to_number :: "pystr \<Rightarrow> pynum option"
  json_loads :: "pystr \<Rightarrow> pyval option"
  unix_time :: int
  now_general :: time
  now_expiry :: time
  now_activity :: time
  now_transaction :: time
  now_created :: time
  now_stamped :: time
  disk_validate :: bool
  disk_rate :: bool
  disk_wallet :: bool
  disk_disconnect :: bool
  api_key :: bool
  chat_completion :: "pystr \<Rightarrow> pystr option"
  create_wallet :: "pystr \<Rightarrow> wallet_data option"
  connect_wallet :: "pystr option \<Rightarrow> pystr \<Rightarrow> wallet_data option"
  sign_transaction :: "pyval \<Rightarrow> pystr \<Rightarrow> pyval option"
  get_algod_client :: bool
  build_and_send_transaction :: "pyval \<Rightarrow> pyval \<Rightarrow> pyval \<Rightarrow> pyval option"
  create_nft :: "pystr \<Rightarrow> pyval \<Rightarrow> pystr \<Rightarrow> pyval \<Rightarrow> pyval option"
  send_transaction :: "pyval \<Rightarrow> pyval option"
  wait_for_confirmation :: "pyval \<Rightarrow> pyval option"
  account_info :: "pyval \<Rightarrow> pyval option"

text \<open>
  \<open>float_of_text\<close> is \<^verbatim>\<open>float\<close> on the texts not covered by \<open>py_float\<close> below,
  \<open>text_to_number\<close> is the helper of \<^verbatim>\<open>utils\<close> (Python's \<^verbatim>\<open>None\<close> is \<open>None\<close>),
  \<open>unix_time\<close> is \<^verbatim>\<open>int(time.time())\<close>, the \<open>now\<close> fields are the readings of
  \<^verbatim>\<open>datetime.now()\<close> in the order of the source, a \<open>disk\<close> field says whether that
  \<^verbatim>\<open>save_sessions\<close> can write, \<open>api_key\<close> says whether \<^verbatim>\<open>PERPLEXITY_API_KEY\<close> is set,
  \<open>chat_completion\<close> is the content of the language model's answer, \<open>create_nft\<close>
  takes the name, the supply, the description and the sender (the unit name is computed
  from the name inside), \<open>get_algod_client\<close> says whether the ledger client is built,
  \<open>account_info\<close> is the balance computed from the ledger's answer for an address.
\<close>

section \<open>What a handler does\<close>

datatype reply =
    InvalidInput
  | TooQuickly
  | NotUnderstood
  | AskNewPassword
  | AskMnemonic
  | UnsupportedAction
  | ErrorOccurred
  | TooManyAttempts
  | InvalidState
  | PasswordTooShort
  | PasswordNeedsLettersNumbers
  | WalletCreated pyval pyval
  | WalletCreationFailed
  | ConnectWalletFirst
  | TransactionRateLimit
  | MissingTransactionDetails
  | InvalidRecipient
  | InvalidAmount
  | ConfirmTransaction pyval pyval
  | TransactionResult pyval
  | TransactionFailed
  | NoPendingTransaction
  | NftCreated pyval pyval
  | TransactionSuccessful pyval
  | TooManyPasswordAttempts
  | IncorrectPassword nat
  | MissingNftName
  | NftNameLength
  | ConfirmNft pystr pyval pyval
  | NftCreatedDirectly pyval
  | NftCreationFailed
  | Balance pyval
  | BalanceFailed
  | Disconnected
  | InvalidMnemonic
  | AskConnectPassword
  | WalletConnected pyval
  | WalletConnectionFailed

text \<open>
  The replies, by the text the source sends (without the leading emoji):
  \<open>InvalidInput\<close> "Invalid input received.",
  \<open>TooQuickly\<close> "You're sending requests too quickly. ...",
  \<open>NotUnderstood\<close> "I didn't understand that command. ...",
  \<open>AskNewPassword\<close> "Creating a new wallet... Please set a secure password ...",
  \<open>AskMnemonic\<close> "Connecting to existing wallet... Please enter your 25-word mnemonic phrase:",
  \<open>UnsupportedAction\<close> "Unsupported action",
  \<open>ErrorOccurred\<close> "An error occurred. Please try again later.",
  \<open>TooManyAttempts\<close> "Too many failed attempts. Please start over.",
  \<open>InvalidState\<close> "Invalid state. Please start over.",
  \<open>PasswordTooShort\<close> "Password must be at least 8 characters long.",
  \<open>PasswordNeedsLettersNumbers\<close> "Password must contain both letters and numbers.",
  \<open>WalletCreated\<close> "Wallet created successfully! ..." with the address and the mnemonic,
  \<open>WalletCreationFailed\<close> "Failed to create wallet. Please try again.",
  \<open>ConnectWalletFirst\<close> "Please connect a wallet first!",
  \<open>TransactionRateLimit\<close> "Transaction rate limit exceeded. ...",
  \<open>MissingTransactionDetails\<close> "Missing transaction details. ...",
  \<open>InvalidRecipient\<close> "Invalid recipient address format.",
  \<open>InvalidAmount\<close> "Invalid amount. Must be between 0 and 1,000,000 ALGO.",
  \<open>ConfirmTransaction\<close> "Transaction Confirmation Required ..." with amount and recipient,
  \<open>TransactionResult\<close> the collaborator's message,
  \<open>TransactionFailed\<close> "Transaction failed. Please check your balance and try again.",
  \<open>NoPendingTransaction\<close> "No pending transaction found.",
  \<open>NftCreated\<close> "NFT Created Successfully! ..." with asset id and transaction id,
  \<open>TransactionSuccessful\<close> "Transaction Successful! ..." with the transaction id,
  \<open>TooManyPasswordAttempts\<close> "Too many failed password attempts. Transaction cancelled.",
  \<open>IncorrectPassword n\<close> "Incorrect password. n attempts remaining.",
  \<open>MissingNftName\<close> "Missing NFT name. ...",
  \<open>NftNameLength\<close> "NFT name must be 1-50 characters long.",
  \<open>ConfirmNft\<close> "NFT Creation Confirmation ..." with name, supply and description,
  \<open>NftCreatedDirectly\<close> "NFT created! Asset ID: ...",
  \<open>NftCreationFailed\<close> "Failed to create NFT. Please try again.",
  \<open>Balance\<close> "Wallet Balance ..." computed from the account's amount,
  \<open>BalanceFailed\<close> "Failed to check balance. Please try again.",
  \<open>Disconnected\<close> "Wallet disconnected securely",
  \<open>InvalidMnemonic\<close> "Invalid mnemonic. Must be exactly 25 words.",
  \<open>AskConnectPassword\<close> "Please set a password to secure this wallet:",
  \<open>WalletConnected\<close> "Wallet Connected Successfully! ..." with the address,
  \<open>WalletConnectionFailed\<close> "Failed to connect wallet. ...".
  The error replies are those the source marks with a cross.
\<close>

fun error_feedback :: "reply \<Rightarrow> bool" where
  "error_feedback TooQuickly = False"
| "error_feedback AskNewPassword = False"
| "error_feedback AskMnemonic = False"
| "error_feedback (WalletCreated a m) = False"
| "error_feedback TransactionRateLimit = False"
| "error_feedback (ConfirmTransaction a r) = False"
| "error_feedback (TransactionResult m) = False"
| "error_feedback (NftCreated a t) = False"
| "error_feedback (TransactionSuccessful t) = False"
| "error_feedback (ConfirmNft n s d) = False"
| "error_feedback (NftCreatedDirectly r) = False"
| "error_feedback (Balance a) = False"
| "error_feedback Disconnected = False"
| "error_feedback AskConnectPassword = False"
| "error_feedback (WalletConnected a) = False"
| "error_feedback _ = True"

text \<open>The calls to the language model, the wallet and the ledger, with their arguments.\<close>

datatype call =
    LanguageModel pystr
  | CreateWallet pystr
  | ConnectWallet "pystr option" pystr
  | SignTransaction pyval pystr
  | GetAlgodClient
  | BuildAndSendTransaction pyval pyval pyval
  | CreateNft pystr pyval pystr pyval
  | SendTransaction pyval
  | WaitForConfirmation pyval
  | AccountInfo pyval

datatype action = Reply reply | Call call

fun is_call :: "action \<Rightarrow> bool" where
  "is_call (Call c) = True"
| "is_call (Reply r) = False"

text \<open>A handler returns, or an exception leaves it.\<close>

datatype completion = Returned | Raised

text \<open>
  \<^verbatim>\<open>context.user_data\<close>, the dictionary of one user, by its keys \<^verbatim>\<open>state\<close>,
  \<^verbatim>\<open>failed_attempts\<close>, \<^verbatim>\<open>pending_txn\<close>, \<^verbatim>\<open>transaction_type\<close> and \<^verbatim>\<open>mnemonic\<close>;
  \<open>None\<close> is an absent key and \<open>empty_user_data\<close> is the dictionary after
  \<^verbatim>\<open>clear()\<close>.
\<close>

record user_data =
  state :: "string option"
  failed_attempts :: "nat option"
  pending_txn :: "pyval option"
  transaction_type :: "string option"
  mnemonic :: "pystr option"

definition empty_user_data :: user_data where
  "empty_user_data = \<lparr>state = None, failed_attempts = None, pending_txn = None,
                     transaction_type = None, mnemonic = None\<rparr>"

type_synonym outcome = "completion \<times> action list \<times> files \<times> user_data"

section \<open>Dictionaries and numbers of Python\<close>

text \<open>\<^verbatim>\<open>d.get(key)\<close> and \<^verbatim>\<open>d[key]\<close> on the items of a dictionary.\<close>

definition dict_get :: "(pystr \<times> pyval) list \<Rightarrow> string \<Rightarrow> pyval option" where
  "dict_get d key = map_of d (py key)"

text \<open>
  \<^verbatim>\<open>key in params\<close>: a key of a dictionary, an element of a list, a substring of a
  string; \<^verbatim>\<open>TypeError\<close> (\<open>None\<close>) for a value that is not a container.
\<close>

fun py_in :: "string \<Rightarrow> pyval \<Rightarrow> bool option" where
  "py_in key (VDict d) = Some (dict_get d key \<noteq> None)"
| "py_in key (VList l) = Some (VStr (py key) \<in> set l)"
| "py_in key (VStr s) = Some (sublist (py key) s)"
| "py_in key _ = None"

text \<open>
  \<^verbatim>\<open>params[key]\<close> for a string key: the value in a dictionary, \<^verbatim>\<open>KeyError\<close> or
  \<^verbatim>\<open>TypeError\<close> (\<open>None\<close>) otherwise.
\<close>

fun py_index :: "pyval \<Rightarrow> string \<Rightarrow> pyval option" where
  "py_index (VDict d) key = dict_get d key"
| "py_index _ key = None"

fun num_le :: "pynum \<Rightarrow> rat \<Rightarrow> bool" where
  "num_le (Fin q) b = (q \<le> b)"
| "num_le NegInf b = True"
| "num_le PosInf b = False"
| "num_le NaN b = False"

fun num_gt :: "pynum \<Rightarrow> rat \<Rightarrow> bool" where
  "num_gt (Fin q) b = (q > b)"
| "num_gt PosInf b = True"
| "num_gt NegInf b = False"
| "num_gt NaN b = False"

text \<open>\<^verbatim>\<open>amount <= 0 or amount > 1000000\<close> on a number.\<close>

definition out_of_range :: "pynum \<Rightarrow> bool" where
  "out_of_range amount \<longleftrightarrow> num_le amount 0 \<or> num_gt amount 1000000"

text \<open>
  The same test on a value of any type: a \<^verbatim>\<open>bool\<close> is the integer 0 or 1, and a value
  that is not a number raises \<^verbatim>\<open>TypeError\<close> (\<open>None\<close>).
\<close>

fun value_out_of_range :: "pyval \<Rightarrow> bool option" where
  "value_out_of_range (VNum n) = Some (out_of_range n)"
| "value_out_of_range (VBool b) = Some (out_of_range (Fin (if b then 1 else 0)))"
| "value_out_of_range _ = None"

text \<open>
  \<^verbatim>\<open>float(text)\<close>. A text of one to fifteen ASCII digits is the integer it spells, which
  a \<^verbatim>\<open>float\<close> holds exactly; every other text is left to the interpreter
  (\<open>None\<close> is \<^verbatim>\<open>ValueError\<close>).
\<close>

definition decimal_value :: "pystr \<Rightarrow> nat" where
  "decimal_value s = foldl (\<lambda>a c. 10 * a + (c - 48)) 0 s"

definition py_float :: "(pystr \<Rightarrow> pynum option) \<Rightarrow> pystr \<Rightarrow> pynum option" where
  "py_float other s =
     (if s \<noteq> [] \<and> length s \<le> 15 \<and> list_all ascii_digit s
      then Some (Fin (of_nat (decimal_value s)))
      else other s)"

text \<open>\<^verbatim>\<open>str.split()\<close>: the maximal runs without white space.\<close>

fun split_from :: "pystr \<Rightarrow> pystr \<Rightarrow> pystr list" where
  "split_from w [] = (if w = [] then [] else [rev w])"
| "split_from w (c # cs) =
     (if is_space c then (if w = [] then split_from [] cs else rev w # split_from [] cs)
      else split_from (c # w) cs)"

definition py_split :: "pystr \<Rightarrow> pystr list" where
  "py_split s = split_from [] s"

text \<open>
  \<^verbatim>\<open>text.find(c)\<close>, \<^verbatim>\<open>text.rfind(c)\<close> (\<open>-1\<close> when \<open>c\<close> does not occur) and the
  slice \<^verbatim>\<open>text[start:end]\<close>, where a negative index counts from the end.
\<close>

fun py_find :: "nat \<Rightarrow> pystr \<Rightarrow> int" where
  "py_find c [] = -1"
| "py_find c (x # xs) = (if x = c then 0 else let i = py_find c xs in if i < 0 then -1 else i + 1)"

definition py_rfind :: "nat \<Rightarrow> pystr \<Rightarrow> int" where
  "py_rfind c s = (let i = py_find c (rev s) in if i < 0 then -1 else int (length s) - 1 - i)"

definition py_slice :: "pystr \<Rightarrow> int \<Rightarrow> int \<Rightarrow> pystr" where
  "py_slice s start stop =
     (let n = int (length s);
          a = (if start < 0 then max 0 (n + start) else min start n);
          b = (if stop < 0 then max 0 (n + stop) else min stop n)
      in take (nat (b - a)) (drop (nat a) s))"

section \<open>Intent resolution\<close>

text \<open>
  \<^verbatim>\<open>
  def _extract_json(self, text):
      try:
          start = text.find('{')
          end = text.rfind('}') + 1
          return json.loads(text[start:end])
      except:
          return {"intent": "unknown"}
  \<close>
\<close>

definition extract_json :: "env \<Rightarrow> pystr \<Rightarrow> pyval" where
  "extract_json e text =
     (let start = py_find 123 text;
          stop = py_rfind 125 text + 1
      in case json_loads e (py_slice text start stop) of
           Some v \<Rightarrow> v
         | None \<Rightarrow> VDict [(py ''intent'', VStr (py ''unknown''))])"

text \<open>
  \<^verbatim>\<open>AIIntentParser().parse(user_input)\<close> inside the \<^verbatim>\<open>try\<close> of \<^verbatim>\<open>handle_message\<close>:
  without an API key the constructor raises and nothing is called; otherwise the language
  model is called, and \<^verbatim>\<open>parse\<close> returns \<^verbatim>\<open>None\<close> when the call raises.
\<close>

definition ai_parse :: "env \<Rightarrow> pystr \<Rightarrow> action list \<times> pyval" where
  "ai_parse e user_input =
     (if \<not> api_key e then ([], VNone)
      else case chat_completion e user_input of
             None \<Rightarrow> ([Call (LanguageModel user_input)], VNone)
           | Some content \<Rightarrow> ([Call (LanguageModel user_input)], extract_json e content))"

text \<open>
  The patterns of \<^verbatim>\<open>parse_nft_command_fallback\<close>:
  \<^verbatim>\<open>(?i)(create|mint|make)\s+(?:an?\s+)?nft\s+(?:with\s+name\s+|named\s+|called\s+)?(?P<name>[a-zA-Z0-9\s]{1,50})\<close>,
  the same after an optional \<^verbatim>\<open>(?:help\s+me\s+)?\<close>, and
  \<^verbatim>\<open>(?i)(create|mint|make)\s+(?P<name>[a-zA-Z0-9\s]{1,50})\s+nft\<close>.
\<close>

definition verb_group :: regex where
  "verb_group = Grp ''1'' (re_alt [re_word True ''create'', re_word True ''mint'',
                                   re_word True ''make''])"

definition name_group :: regex where
  "name_group = Grp ''name'' (Rep 1 (Some 50) True (cls True name_char))"

definition nft_tail :: "regex list" where
  "nft_tail =
     [verb_group, re_plus ws,
      re_opt (re_cat [lit True 97, re_opt (lit True 110), re_plus ws]),
      re_word True ''nft'', re_plus ws,
      re_opt (re_alt [re_cat [re_word True ''with'', re_plus ws, re_word True ''name'', re_plus ws],
                      re_cat [re_word True ''named'', re_plus ws],
                      re_cat [re_word True ''called'', re_plus ws]]),
      name_group]"

definition nft_patterns :: "regex list" where
  "nft_patterns =
     [re_cat nft_tail,
      re_cat (re_opt (re_cat [re_word True ''help'', re_plus ws, re_word True ''me'', re_plus ws])
              # nft_tail),
      re_cat [verb_group, re_plus ws, name_group, re_plus ws, re_word True ''nft'']]"

text \<open>\<^verbatim>\<open>match.group(name)\<close>: \<^verbatim>\<open>None\<close> for a group that took no part in the match.\<close>

definition group :: "groups \<Rightarrow> string \<Rightarrow> pyval" where
  "group g name = (case g name of None \<Rightarrow> VNone | Some s \<Rightarrow> VStr s)"

text \<open>
  \<^verbatim>\<open>
  def parse_nft_command_fallback(text):
      text = sanitize_input(text)
      if not text:
          return None
      for pattern in patterns:
          match = re.search(pattern, text)
          if match:
              name = sanitize_input(match.group('name'))
              if name and len(name.strip()) > 0:
                  return {'intent': 'create_nft',
                          'parameters': {'name': name.strip(), 'supply': 1, 'description': ''}}
      return None
  \<close>
\<close>

fun nft_loop :: "regex list \<Rightarrow> pystr \<Rightarrow> pyval" where
  "nft_loop [] text = VNone"
| "nft_loop (pattern # patterns) text =
     (case re_search pattern text of
        None \<Rightarrow> nft_loop patterns text
      | Some g \<Rightarrow>
          let name = sanitize_input (group g ''name'')
          in if name \<noteq> [] \<and> length (py_strip name) > 0
             then VDict [(py ''intent'', VStr (py ''create_nft'')),
                         (py ''parameters'',
                          VDict [(py ''name'', VStr (py_strip name)),
                                 (py ''supply'', VNum (Fin 1)),
                                 (py ''description'', VStr [])])]
             else nft_loop patterns text)"

definition parse_nft_command_fallback :: "pyval \<Rightarrow> pyval" where
  "parse_nft_command_fallback text =
     (let text = sanitize_input text
      in if text = [] then VNone else nft_loop nft_patterns text)"

text \<open>
  \<^verbatim>\<open>(?i)(send|transfer|pay)\s+(?P<amount>[\d\.]{1,20}|\w+(?:\s+\w+)*)\s+(?:algo|algos)\s+to\s+(?P<address>[A-Z2-7]{58})\<close>
\<close>

definition address_group :: regex where
  "address_group = Grp ''address'' (Rep 58 (Some 58) True (cls True base32))"

definition send_pattern :: "unicode \<Rightarrow> regex" where
  "send_pattern U =
     re_cat [Grp ''1'' (re_alt [re_word True ''send'', re_word True ''transfer'',
                                re_word True ''pay'']),
             re_plus ws,
             Grp ''amount''
               (Or (Rep 1 (Some 20) True (Cls (decimal_or_dot U)))
                   (Cat (re_plus (Cls (is_word U)))
                        (re_star (Cat (re_plus ws) (re_plus (Cls (is_word U))))))),
             re_plus ws,
             Or (re_word True ''algo'') (re_word True ''algos''),
             re_plus ws, re_word True ''to'', re_plus ws,
             address_group]"

definition send_intent :: "pynum \<Rightarrow> pystr \<Rightarrow> pyval" where
  "send_intent amount addr =
     VDict [(py ''intent'', VStr (py ''send_algo'')),
            (py ''parameters'',
             VDict [(py ''amount'', VNum amount), (py ''recipient'', VStr addr)])]"

text \<open>
  \<^verbatim>\<open>
  def parse_send_command_fallback(text):
      text = sanitize_input(text)
      if not text:
          return None
      match = re.search(pattern, text)
      if match:
          amount_text = sanitize_input(match.group('amount'))
          address = sanitize_input(match.group('address'))
          if not validate_algorand_address(address):
              return None
          try:
              amount = float(amount_text)
              if amount <= 0 or amount > 1000000:
                  return None
          except ValueError:
              from utils import text_to_number
              amount = text_to_number(amount_text)
              if amount is None or amount <= 0 or amount > 1000000:
                  return None
          return {'intent': 'send_algo',
                  'parameters': {'amount': amount, 'recipient': address}}
      return None
  \<close>
\<close>

definition parse_send_command_fallback :: "env \<Rightarrow> pyval \<Rightarrow> pyval" where
  "parse_send_command_fallback e text =
     (let text = sanitize_input text
      in if text = [] then VNone
         else case re_search (send_pattern (uni e)) text of
                None \<Rightarrow> VNone
              | Some g \<Rightarrow>
                  let amount_text = sanitize_input (group g ''amount'');
                      addr = sanitize_input (group g ''address'')
                  in if \<not> validate_algorand_address (VStr addr) then VNone
                     else case py_float (float_of_text e) amount_text of
                            Some amount \<Rightarrow>
                              if out_of_range amount then VNone else send_intent amount addr
                          | None \<Rightarrow>
                              (case text_to_number e amount_text of
                                 None \<Rightarrow> VNone
                               | Some amount \<Rightarrow>
                                   if out_of_range amount then VNone
                                   else send_intent amount addr))"

text \<open>
  The resolution steps of \<^verbatim>\<open>handle_message\<close>:
  \<^verbatim>\<open>
      parsed = None
      try:
          intent_parser = AIIntentParser()
          parsed = intent_parser.parse(user_input)
      except Exception as e:
          logger.error(...)
      if not parsed or parsed.get('intent') == 'unknown':
          parsed = parse_nft_command_fallback(user_input)
          if not parsed:
              parsed = parse_send_command_fallback(user_input)
  \<close>
  \<^verbatim>\<open>parsed.get\<close> raises \<^verbatim>\<open>AttributeError\<close> on a value that is not a dictionary.
\<close>

definition resolve_intent :: "env \<Rightarrow> pystr \<Rightarrow> completion \<times> action list \<times> pyval" where
  "resolve_intent e user_input =
     (let (calls, parsed) = ai_parse e user_input;
          fallback =
            (let parsed = parse_nft_command_fallback (VStr user_input)
             in if \<not> truthy parsed then parse_send_command_fallback e (VStr user_input)
                else parsed)
      in if \<not> truthy parsed then (Returned, calls, fallback)
         else case parsed of
                VDict d \<Rightarrow>
                  if dict_get d ''intent'' = Some (VStr (py ''unknown''))
                  then (Returned, calls, fallback)
                  else (Returned, calls, parsed)
              | _ \<Rightarrow> (Raised, calls, parsed))"

section \<open>Handlers\<close>

text \<open>
  Each handler takes the environment, the user id, its argument, the files and the user's
  \<^verbatim>\<open>user_data\<close>, and returns how it ended, what it did in order (calls and replies), the
  files and the \<^verbatim>\<open>user_data\<close> afterwards.

  Where a handler calls \<^verbatim>\<open>load_sessions\<close> inside its \<^verbatim>\<open>try\<close>, an exception of the
  call, or of \<^verbatim>\<open>sessions[str(user_id)] = ...\<close> on a foreign value, ends in the
  \<^verbatim>\<open>except\<close> branch. Where it calls it before the \<^verbatim>\<open>try\<close>, the exception of the call,
  or the \<^verbatim>\<open>AttributeError\<close> of \<^verbatim>\<open>sessions.get\<close> on a foreign value, leaves the handler.

  \<^verbatim>\<open>
  async def handle_wallet_creation_password(update, context, password):
      if len(password) < 8:
          await update.message.reply_text("Password must be at least 8 characters long.")
          return
      if not re.search(r'[A-Za-z]', password) or not re.search(r'\d', password):
          await update.message.reply_text("Password must contain both letters and numbers.")
          return
      try:
          wallet_data = create_wallet(password)
          sessions = load_sessions()
          sessions[str(user_id)] = {
              "address": wallet_data["address"],
              "encrypted_mnemonic": wallet_data["encrypted_mnemonic"],
              "created_at": datetime.now().isoformat(),
              "last_activity": datetime.now().isoformat()
          }
          save_sessions(sessions)
          await update.message.reply_text("Wallet created successfully! ...")
          context.user_data.clear()
      except Exception as e:
          await update.message.reply_text("Failed to create wallet. Please try again.")
          context.user_data.clear()
  \<close>
\<close>

definition handle_wallet_creation_password ::
  "env \<Rightarrow> int \<Rightarrow> pystr \<Rightarrow> files \<Rightarrow> user_data \<Rightarrow> outcome" where
  "handle_wallet_creation_password e user_id password fs c =
     (if length password < 8 then (Returned, [Reply PasswordTooShort], fs, c)
      else if re_search (cls False ascii_letter) password = None
              \<or> re_search (Cls (is_decimal (uni e))) password = None
      then (Returned, [Reply PasswordNeedsLettersNumbers], fs, c)
      else case create_wallet e password of
             None \<Rightarrow>
               (Returned, [Call (CreateWallet password), Reply WalletCreationFailed], fs,
                empty_user_data)
           | Some wallet \<Rightarrow>
              (case load_sessions (unix_time e) fs of
                 (Some (Sessions sessions), fs1) \<Rightarrow>
                   let sessions = sessions(user_id \<mapsto>
                         \<lparr>address = wd_address wallet,
                          encrypted_mnemonic = wd_encrypted_mnemonic wallet,
                          created_at = Some (now_created e), connected_at = None,
                          last_activity = Some (now_stamped e), recent_transactions = None\<rparr>);
                       fs2 = save_sessions (disk_wallet e) sessions fs1
                   in (Returned,
                       [Call (CreateWallet password),
                        Reply (WalletCreated (wd_address wallet) (wd_mnemonic wallet))],
                       fs2, empty_user_data)
               | (_, fs1) \<Rightarrow>
                   (Returned, [Call (CreateWallet password), Reply WalletCreationFailed], fs1,
                    empty_user_data)))"

text \<open>
  \<^verbatim>\<open>
  async def handle_mnemonic_input(update, context, mnemonic):
      words = mnemonic.strip().split()
      if len(words) != 25:
          await update.message.reply_text("Invalid mnemonic. Must be exactly 25 words.")
          return
      context.user_data['mnemonic'] = mnemonic
      context.user_data['state'] = 'connecting_password'
      await update.message.reply_text("Please set a password to secure this wallet:")
  \<close>
\<close>

definition handle_mnemonic_input :: "pystr \<Rightarrow> files \<Rightarrow> user_data \<Rightarrow> outcome" where
  "handle_mnemonic_input phrase fs c =
     (let words = py_split (py_strip phrase)
      in if length words \<noteq> 25 then (Returned, [Reply InvalidMnemonic], fs, c)
         else (Returned, [Reply AskConnectPassword], fs,
               c\<lparr>mnemonic := Some phrase, state := Some ''connecting_password''\<rparr>))"

text \<open>
  \<^verbatim>\<open>
  async def handle_connection_password(update, context, password):
      mnemonic = context.user_data.get('mnemonic')
      try:
          wallet_data = connect_wallet(mnemonic, password)
          sessions = load_sessions()
          sessions[str(user_id)] = {
              "address": wallet_data["address"],
              "encrypted_mnemonic": wallet_data["encrypted_mnemonic"],
              "connected_at": datetime.now().isoformat(),
              "last_activity": datetime.now().isoformat()
          }
          save_sessions(sessions)
          await update.message.reply_text("Wallet Connected Successfully! ...")
          context.user_data.clear()
      except Exception as e:
          await update.message.reply_text("Failed to connect wallet. ...")
          context.user_data.clear()
  \<close>
\<close>

definition handle_connection_password ::
  "env \<Rightarrow> int \<Rightarrow> pystr \<Rightarrow> files \<Rightarrow> user_data \<Rightarrow> outcome" where
  "handle_connection_password e user_id password fs c =
     (case connect_wallet e (mnemonic c) password of
        None \<Rightarrow>
          (Returned, [Call (ConnectWallet (mnemonic c) password), Reply WalletConnectionFailed],
           fs, empty_user_data)
      | Some wallet \<Rightarrow>
         (case load_sessions (unix_time e) fs of
            (Some (Sessions sessions), fs1) \<Rightarrow>
              let sessions = sessions(user_id \<mapsto>
                    \<lparr>address = wd_address wallet,
                     encrypted_mnemonic = wd_encrypted_mnemonic wallet,
                     created_at = None, connected_at = Some (now_created e),
                     last_activity = Some (now_stamped e), recent_transactions = None\<rparr>);
                  fs2 = save_sessions (disk_wallet e) sessions fs1
              in (Returned,
                  [Call (ConnectWallet (mnemonic c) password),
                   Reply (WalletConnected (wd_address wallet))],
                  fs2, empty_user_data)
          | (_, fs1) \<Rightarrow>
              (Returned,
               [Call (ConnectWallet (mnemonic c) password), Reply WalletConnectionFailed],
               fs1, empty_user_data)))"

text \<open>
  The \<^verbatim>\<open>except\<close> branch of \<^verbatim>\<open>handle_transaction_password\<close>, after the calls made so far:
  \<^verbatim>\<open>
      except Exception as e:
          failed_attempts = context.user_data.get('failed_attempts', 0) + 1
          context.user_data['failed_attempts'] = failed_attempts
          if failed_attempts >= MAX_PASSWORD_ATTEMPTS:
              context.user_data.clear()
              await update.message.reply_text("Too many failed password attempts. ...")
          else:
              await update.message.reply_text(f"Incorrect password. {MAX_PASSWORD_ATTEMPTS - failed_attempts} attempts remaining.")
  \<close>
\<close>

definition signing_failed :: "action list \<Rightarrow> files \<Rightarrow> user_data \<Rightarrow> outcome" where
  "signing_failed calls fs c =
     (let attempts = (case failed_attempts c of None \<Rightarrow> 0 | Some n \<Rightarrow> n) + 1;
          c1 = c\<lparr>failed_attempts := Some attempts\<rparr>
      in if attempts \<ge> MAX_PASSWORD_ATTEMPTS
         then (Returned, calls @ [Reply TooManyPasswordAttempts], fs, empty_user_data)
         else (Returned, calls @ [Reply (IncorrectPassword (MAX_PASSWORD_ATTEMPTS - attempts))],
               fs, c1))"

text \<open>
  \<^verbatim>\<open>
  async def handle_transaction_password(update, context, password):
      try:
          pending_txn = context.user_data.get('pending_txn')
          transaction_type = context.user_data.get('transaction_type', 'send')
          if not pending_txn:
              await update.message.reply_text("No pending transaction found.")
              context.user_data.clear()
              return
          signed_txn = sign_transaction(pending_txn, password=password, frontend='telegram')
          algod_client = get_algod_client()
          txid = algod_client.send_transaction(signed_txn)
          if transaction_type == 'nft':
              confirmed_txn = wait_for_confirmation(algod_client, txid, 4)
              asset_id = confirmed_txn["asset-index"]
              await update.message.reply_text("NFT Created Successfully! ...")
          else:
              await update.message.reply_text("Transaction Successful! ...")
          context.user_data.clear()
      except Exception as e:
          ...
  \<close>
\<close>

definition handle_transaction_password ::
  "env \<Rightarrow> int \<Rightarrow> pystr \<Rightarrow> files \<Rightarrow> user_data \<Rightarrow> outcome" where
  "handle_transaction_password e user_id password fs c =
     (let kind = (case transaction_type c of None \<Rightarrow> ''send'' | Some t \<Rightarrow> t)
      in case pending_txn c of
           None \<Rightarrow> (Returned, [Reply NoPendingTransaction], fs, empty_user_data)
         | Some txn \<Rightarrow>
            if \<not> truthy txn
            then (Returned, [Reply NoPendingTransaction], fs, empty_user_data)
            else
              case sign_transaction e txn password of
                None \<Rightarrow> signing_failed [Call (SignTransaction txn password)] fs c
              | Some signed \<Rightarrow>
                  if \<not> get_algod_client e
                  then signing_failed [Call (SignTransaction txn password), Call GetAlgodClient] fs c
                  else
                    case send_transaction e signed of
                      None \<Rightarrow>
                        signing_failed
                          [Call (SignTransaction txn password), Call GetAlgodClient,
                           Call (SendTransaction signed)] fs c
                    | Some txid \<Rightarrow>
                        if kind = ''nft'' then
                          (case wait_for_confirmation e txid of
                             None \<Rightarrow>
                               signing_failed
                                 [Call (SignTransaction txn password), Call GetAlgodClient,
                                  Call (SendTransaction signed), Call (WaitForConfirmation txid)]
                                 fs c
                           | Some confirmed \<Rightarrow>
                               (case py_index confirmed ''asset-index'' of
                                  None \<Rightarrow>
                                    signing_failed
                                      [Call (SignTransaction txn password), Call GetAlgodClient,
                                       Call (SendTransaction signed),
                                       Call (WaitForConfirmation txid)] fs c
                                | Some asset_id \<Rightarrow>
                                    (Returned,
                                     [Call (SignTransaction txn password), Call GetAlgodClient,
                                      Call (SendTransaction signed),
                                      Call (WaitForConfirmation txid),
                                      Reply (NftCreated asset_id txid)],
                                     fs, empty_user_data)))
                        else
                          (Returned,
                           [Call (SignTransaction txn password), Call GetAlgodClient,
                            Call (SendTransaction signed), Reply (TransactionSuccessful txid)],
                           fs, empty_user_data))"

text \<open>
  \<^verbatim>\<open>all(param in params for param in ['amount', 'recipient'])\<close>, left to right.
\<close>

definition has_required_params :: "pyval \<Rightarrow> bool option" where
  "has_required_params params =
     (case py_in ''amount'' params of
        None \<Rightarrow> None
      | Some False \<Rightarrow> Some False
      | Some True \<Rightarrow> py_in ''recipient'' params)"

text \<open>
  What both transaction handlers do with the collaborator's \<^verbatim>\<open>result\<close>, inside their
  \<^verbatim>\<open>try\<close>:
  \<^verbatim>\<open>
          if result.get('status') == 'awaiting_approval':
              context.user_data['pending_txn'] = result['unsigned_txn']
              context.user_data['state'] = 'transaction_password'
              context.user_data['transaction_type'] = 'send'
  \<close>
  \<open>awaiting\<close> is the handle to store, if the result asks for approval and carries one.
\<close>

definition awaiting_approval :: "(pystr \<times> pyval) list \<Rightarrow> bool" where
  "awaiting_approval d \<longleftrightarrow> dict_get d ''status'' = Some (VStr (py ''awaiting_approval''))"

definition enter_transaction_password :: "pyval \<Rightarrow> string \<Rightarrow> user_data \<Rightarrow> user_data" where
  "enter_transaction_password txn kind c =
     c\<lparr>pending_txn := Some txn, state := Some ''transaction_password'',
       transaction_type := Some kind\<rparr>"

text \<open>
  \<^verbatim>\<open>
  async def handle_send_transaction(update, context, params):
      if not validate_session(user_id):
          await update.message.reply_text("Please connect a wallet first!")
          return
      if not check_user_rate_limit(user_id, "transaction"):
          await update.message.reply_text("Transaction rate limit exceeded. ...")
          return
      required_params = ['amount', 'recipient']
      if not all(param in params for param in required_params):
          await update.message.reply_text("Missing transaction details. ...")
          return
      if not validate_algorand_address(params['recipient']):
          await update.message.reply_text("Invalid recipient address format.")
          return
      if params['amount'] <= 0 or params['amount'] > 1000000:
          await update.message.reply_text("Invalid amount. ...")
          return
      sessions = load_sessions()
      user_session = sessions.get(str(user_id), {})
      try:
          algod_client = get_algod_client()
          result = build_and_send_transaction(sender=user_session["address"],
              recipient=params['recipient'], amount=params['amount'], ...)
          if result.get('status') == 'awaiting_approval':
              ...
              await update.message.reply_text("Transaction Confirmation Required ...")
          else:
              await update.message.reply_text(f"{result['message']}")
      except Exception as e:
          await update.message.reply_text("Transaction failed. ...")
  \<close>
\<close>

definition handle_send_transaction ::
  "env \<Rightarrow> int \<Rightarrow> pyval \<Rightarrow> files \<Rightarrow> user_data \<Rightarrow> outcome" where
  "handle_send_transaction e user_id params fs c =
     (let (valid, fs1) =
            validate_session (unix_time e) (now_expiry e) (now_activity e) (disk_validate e)
              user_id fs
      in case valid of
           None \<Rightarrow> (Raised, [], fs1, c)
         | Some valid \<Rightarrow>
         if \<not> valid then (Returned, [Reply ConnectWalletFirst], fs1, c)
         else
           let (allowed, fs2) =
                 check_user_rate_limit (unix_time e) (now_transaction e) (disk_rate e) user_id
                   ''transaction'' fs1
           in case allowed of
                None \<Rightarrow> (Raised, [], fs2, c)
              | Some allowed \<Rightarrow>
              if \<not> allowed then (Returned, [Reply TransactionRateLimit], fs2, c)
              else
                case has_required_params params of
                  None \<Rightarrow> (Raised, [], fs2, c)
                | Some False \<Rightarrow> (Returned, [Reply MissingTransactionDetails], fs2, c)
                | Some True \<Rightarrow>
                   (case py_index params ''recipient'' of
                      None \<Rightarrow> (Raised, [], fs2, c)
                    | Some recipient \<Rightarrow>
                       if \<not> validate_algorand_address recipient
                       then (Returned, [Reply InvalidRecipient], fs2, c)
                       else
                        (case py_index params ''amount'' of
                           None \<Rightarrow> (Raised, [], fs2, c)
                         | Some amount \<Rightarrow>
                            (case value_out_of_range amount of
                               None \<Rightarrow> (Raised, [], fs2, c)
                             | Some True \<Rightarrow> (Returned, [Reply InvalidAmount], fs2, c)
                             | Some False \<Rightarrow>
                               (case load_sessions (unix_time e) fs2 of
                                  (Some (Foreign v), fs3) \<Rightarrow> (Raised, [], fs3, c)
                                | (None, fs3) \<Rightarrow> (Raised, [], fs3, c)
                                | (Some (Sessions sessions), fs3) \<Rightarrow>
                                   if \<not> get_algod_client e
                                   then (Returned, [Call GetAlgodClient, Reply TransactionFailed],
                                         fs3, c)
                                   else
                                    (case sessions user_id of
                                       None \<Rightarrow>
                                         (Returned, [Call GetAlgodClient, Reply TransactionFailed],
                                          fs3, c)
                                     | Some user_session \<Rightarrow>
                                        let sender = address user_session;
                                            calls = [Call GetAlgodClient,
                                                     Call (BuildAndSendTransaction sender
                                                             recipient amount)]
                                        in case build_and_send_transaction e sender recipient
                                                  amount of
                                             Some (VDict d) \<Rightarrow>
                                               if awaiting_approval d then
                                                 (case dict_get d ''unsigned_txn'' of
                                                    None \<Rightarrow>
                                                      (Returned, calls @ [Reply TransactionFailed],
                                                       fs3, c)
                                                  | Some txn \<Rightarrow>
                                                      (Returned,
                                                       calls @ [Reply (ConfirmTransaction amount
                                                                         recipient)],
                                                       fs3,
                                                       enter_transaction_password txn ''send'' c))
                                               else
                                                 (case dict_get d ''message'' of
                                                    None \<Rightarrow>
                                                      (Returned, calls @ [Reply TransactionFailed],
                                                       fs3, c)
                                                  | Some message \<Rightarrow>
                                                      (Returned,
                                                       calls @ [Reply (TransactionResult message)],
                                                       fs3, c))
                                           | _ \<Rightarrow>
                                               (Returned, calls @ [Reply TransactionFailed],
                                                fs3, c)))))))"

text \<open>
  \<^verbatim>\<open>
  async def handle_nft_creation(update, context, params):
      if not validate_session(user_id):
          await update.message.reply_text("Please connect a wallet first!")
          return
      if 'name' not in params or not params['name']:
          await update.message.reply_text("Missing NFT name. ...")
          return
      nft_name = sanitize_input(params['name'])
      if not nft_name or len(nft_name) < 1 or len(nft_name) > 50:
          await update.message.reply_text("NFT name must be 1-50 characters long.")
          return
      sessions = load_sessions()
      user_session = sessions.get(str(user_id), {})
      try:
          algod_client = get_algod_client()
          result = create_nft(name=nft_name, unit_name=generate_unit_name(nft_name),
              total_supply=params.get('supply', 1),
              description=sanitize_input(params.get('description', "")),
              algod_client=algod_client, sender=user_session["address"], frontend='telegram')
          if isinstance(result, dict) and result.get('status') == 'awaiting_approval':
              context.user_data['pending_txn'] = result['unsigned_txn']
              context.user_data['state'] = 'transaction_password'
              context.user_data['transaction_type'] = 'nft'
              await update.message.reply_text("NFT Creation Confirmation ...")
          else:
              await update.message.reply_text(f"NFT created! Asset ID: {result}")
      except Exception as e:
          await update.message.reply_text("Failed to create NFT. Please try again.")
  \<close>
\<close>

definition handle_nft_creation ::
  "env \<Rightarrow> int \<Rightarrow> pyval \<Rightarrow> files \<Rightarrow> user_data \<Rightarrow> outcome" where
  "handle_nft_creation e user_id params fs c =
     (let (valid, fs1) =
            validate_session (unix_time e) (now_expiry e) (now_activity e) (disk_validate e)
              user_id fs
      in case valid of
           None \<Rightarrow> (Raised, [], fs1, c)
         | Some valid \<Rightarrow>
         if \<not> valid then (Returned, [Reply ConnectWalletFirst], fs1, c)
         else
           case py_in ''name'' params of
             None \<Rightarrow> (Raised, [], fs1, c)
           | Some False \<Rightarrow> (Returned, [Reply MissingNftName], fs1, c)
           | Some True \<Rightarrow>
              (case params of
                 VDict p \<Rightarrow>
                  (case dict_get p ''name'' of
                     None \<Rightarrow> (Raised, [], fs1, c)
                   | Some name \<Rightarrow>
                      if \<not> truthy name then (Returned, [Reply MissingNftName], fs1, c)
                      else
                       let nft_name = sanitize_input name
                       in if nft_name = [] \<or> length nft_name < 1 \<or> length nft_name > 50
                          then (Returned, [Reply NftNameLength], fs1, c)
                          else
                          (case load_sessions (unix_time e) fs1 of
                             (Some (Foreign v), fs2) \<Rightarrow> (Raised, [], fs2, c)
                           | (None, fs2) \<Rightarrow> (Raised, [], fs2, c)
                           | (Some (Sessions sessions), fs2) \<Rightarrow>
                           let supply = (case dict_get p ''supply'' of
                                           None \<Rightarrow> VNum (Fin 1) | Some v \<Rightarrow> v);
                               description =
                                 sanitize_input (case dict_get p ''description'' of
                                                   None \<Rightarrow> VStr [] | Some v \<Rightarrow> v);
                               shown = (case dict_get p ''description'' of
                                          None \<Rightarrow> VStr (py ''None'') | Some v \<Rightarrow> v)
                           in if \<not> get_algod_client e
                              then (Returned, [Call GetAlgodClient, Reply NftCreationFailed],
                                    fs2, c)
                              else
                               (case sessions user_id of
                                  None \<Rightarrow>
                                    (Returned, [Call GetAlgodClient, Reply NftCreationFailed],
                                     fs2, c)
                                | Some user_session \<Rightarrow>
                                   let sender = address user_session;
                                       calls = [Call GetAlgodClient,
                                                Call (CreateNft nft_name supply description
                                                        sender)]
                                   in case create_nft e nft_name supply description sender of
                                        None \<Rightarrow>
                                          (Returned, calls @ [Reply NftCreationFailed], fs2, c)
                                      | Some (VDict d) \<Rightarrow>
                                          if awaiting_approval d then
                                            (case dict_get d ''unsigned_txn'' of
                                               None \<Rightarrow>
                                                 (Returned, calls @ [Reply NftCreationFailed],
                                                  fs2, c)
                                             | Some txn \<Rightarrow>
                                                 (Returned,
                                                  calls @ [Reply (ConfirmNft nft_name supply
                                                                    shown)],
                                                  fs2,
                                                  enter_transaction_password txn ''nft'' c))
                                          else
                                            (Returned,
                                             calls @ [Reply (NftCreatedDirectly (VDict d))],
                                             fs2, c)
                                      | Some result \<Rightarrow>
                                          (Returned,
                                           calls @ [Reply (NftCreatedDirectly result)],
                                           fs2, c))))
               | _ \<Rightarrow> (Raised, [], fs1, c)))"

text \<open>
  \<^verbatim>\<open>
  async def handle_balance_check(update, context):
      if not validate_session(user_id):
          await update.message.reply_text("Please connect a wallet first!")
          return
      sessions = load_sessions()
      user_session = sessions.get(str(user_id), {})
      try:
          algod_client = get_algod_client()
          account_info = algod_client.account_info(user_session["address"])
          balance = account_info.get("amount", 0) / 1_000_000
          await update.message.reply_text("Wallet Balance ...")
      except Exception as e:
          await update.message.reply_text("Failed to check balance. Please try again.")
  \<close>
  \<open>account_info\<close> of the environment is the balance computed from the ledger's answer,
  or \<open>None\<close> when the call or the computation raises.
\<close>

definition handle_balance_check :: "env \<Rightarrow> int \<Rightarrow> files \<Rightarrow> user_data \<Rightarrow> outcome" where
  "handle_balance_check e user_id fs c =
     (let (valid, fs1) =
            validate_session (unix_time e) (now_expiry e) (now_activity e) (disk_validate e)
              user_id fs
      in case valid of
           None \<Rightarrow> (Raised, [], fs1, c)
         | Some valid \<Rightarrow>
         if \<not> valid then (Returned, [Reply ConnectWalletFirst], fs1, c)
         else
           case load_sessions (unix_time e) fs1 of
             (Some (Foreign v), fs2) \<Rightarrow> (Raised, [], fs2, c)
           | (None, fs2) \<Rightarrow> (Raised, [], fs2, c)
           | (Some (Sessions sessions), fs2) \<Rightarrow>
              if \<not> get_algod_client e
              then (Returned, [Call GetAlgodClient, Reply BalanceFailed], fs2, c)
              else
                case sessions user_id of
                  None \<Rightarrow> (Returned, [Call GetAlgodClient, Reply BalanceFailed], fs2, c)
                | Some user_session \<Rightarrow>
                    let calls = [Call GetAlgodClient, Call (AccountInfo (address user_session))]
                    in case account_info e (address user_session) of
                         None \<Rightarrow> (Returned, calls @ [Reply BalanceFailed], fs2, c)
                       | Some balance \<Rightarrow> (Returned, calls @ [Reply (Balance balance)], fs2, c))"

text \<open>
  \<^verbatim>\<open>
  async def handle_disconnect(update, context):
      sessions = load_sessions()
      if str(user_id) in sessions:
          del sessions[str(user_id)]
          save_sessions(sessions)
      context.user_data.clear()
      await update.message.reply_text("Wallet disconnected securely")
  \<close>
\<close>

definition handle_disconnect :: "env \<Rightarrow> int \<Rightarrow> files \<Rightarrow> user_data \<Rightarrow> outcome" where
  "handle_disconnect e user_id fs c =
     (case load_sessions (unix_time e) fs of
        (None, fs1) \<Rightarrow> (Raised, [], fs1, c)
      | (Some (Foreign v), fs1) \<Rightarrow>
          (case foreign_in (py_str user_id) v of
             None \<Rightarrow> (Raised, [], fs1, c)
           | Some True \<Rightarrow> (Raised, [], fs1, c)
           | Some False \<Rightarrow> (Returned, [Reply Disconnected], fs1, empty_user_data))
      | (Some (Sessions sessions), fs1) \<Rightarrow>
          let fs2 = (if sessions user_id \<noteq> None
                     then save_sessions (disk_disconnect e) (sessions(user_id := None)) fs1
                     else fs1)
          in (Returned, [Reply Disconnected], fs2, empty_user_data))"

text \<open>
  \<^verbatim>\<open>
  async def handle_conversation_state(update, context):
      state = context.user_data.get('state')
      message_text = sanitize_input(update.message.text)
      if not message_text:
          await update.message.reply_text("Invalid input received.")
          return
      failed_attempts = context.user_data.get('failed_attempts', 0)
      if failed_attempts >= MAX_PASSWORD_ATTEMPTS:
          context.user_data.clear()
          await update.message.reply_text("Too many failed attempts. Please start over.")
          return
      if state == 'creating_wallet':
          await handle_wallet_creation_password(update, context, message_text)
      elif state == 'connecting_wallet':
          await handle_mnemonic_input(update, context, message_text)
      elif state == 'connecting_password':
          await handle_connection_password(update, context, message_text)
      elif state == 'transaction_password':
          await handle_transaction_password(update, context, message_text)
      else:
          context.user_data.clear()
          await update.message.reply_text("Invalid state. Please start over.")
  \<close>
\<close>

definition handle_conversation_state ::
  "env \<Rightarrow> int \<Rightarrow> pyval \<Rightarrow> files \<Rightarrow> user_data \<Rightarrow> outcome" where
  "handle_conversation_state e user_id text fs c =
     (let message_text = sanitize_input text
      in if message_text = [] then (Returned, [Reply InvalidInput], fs, c)
         else if (case failed_attempts c of None \<Rightarrow> 0 | Some n \<Rightarrow> n) \<ge> MAX_PASSWORD_ATTEMPTS
         then (Returned, [Reply TooManyAttempts], fs, empty_user_data)
         else if state c = Some ''creating_wallet''
         then handle_wallet_creation_password e user_id message_text fs c
         else if state c = Some ''connecting_wallet''
         then handle_mnemonic_input message_text fs c
         else if state c = Some ''connecting_password''
         then handle_connection_password e user_id message_text fs c
         else if state c = Some ''transaction_password''
         then handle_transaction_password e user_id message_text fs c
         else (Returned, [Reply InvalidState], fs, empty_user_data))"

text \<open>
  The \<^verbatim>\<open>try\<close> block of \<^verbatim>\<open>handle_message\<close>, after the calls of the resolution:
  \<^verbatim>\<open>
      try:
          if intent == 'create_wallet':
              context.user_data['state'] = 'creating_wallet'
              await update.message.reply_text("Creating a new wallet... ...")
          elif intent == 'connect_wallet':
              context.user_data['state'] = 'connecting_wallet'
              await update.message.reply_text("Connecting to existing wallet... ...")
          elif intent == 'send_algo':
              await handle_send_transaction(update, context, params)
          elif intent == 'create_nft':
              await handle_nft_creation(update, context, params)
          elif intent == 'disconnect':
              await handle_disconnect(update, context)
          elif intent == 'balance':
              await handle_balance_check(update, context)
          else:
              await update.message.reply_text("Unsupported action")
      except Exception as e:
          await update.message.reply_text("An error occurred. Please try again later.")
  \<close>
\<close>

definition guarded :: "action list \<Rightarrow> outcome \<Rightarrow> outcome" where
  "guarded calls out =
     (case out of
        (Returned, acts, fs, c) \<Rightarrow> (Returned, calls @ acts, fs, c)
      | (Raised, acts, fs, c) \<Rightarrow> (Returned, calls @ acts @ [Reply ErrorOccurred], fs, c))"

definition dispatch ::
  "env \<Rightarrow> int \<Rightarrow> pyval \<Rightarrow> pyval \<Rightarrow> action list \<Rightarrow> files \<Rightarrow> user_data \<Rightarrow> outcome" where
  "dispatch e user_id intent params calls fs c =
     (if intent = VStr (py ''create_wallet'')
      then (Returned, calls @ [Reply AskNewPassword], fs, c\<lparr>state := Some ''creating_wallet''\<rparr>)
      else if intent = VStr (py ''connect_wallet'')
      then (Returned, calls @ [Reply AskMnemonic], fs, c\<lparr>state := Some ''connecting_wallet''\<rparr>)
      else if intent = VStr (py ''send_algo'')
      then guarded calls (handle_send_transaction e user_id params fs c)
      else if intent = VStr (py ''create_nft'')
      then guarded calls (handle_nft_creation e user_id params fs c)
      else if intent = VStr (py ''disconnect'')
      then guarded calls (handle_disconnect e user_id fs c)
      else if intent = VStr (py ''balance'')
      then guarded calls (handle_balance_check e user_id fs c)
      else (Returned, calls @ [Reply UnsupportedAction], fs, c))"

text \<open>
  \<^verbatim>\<open>
  async def handle_message(update, context):
      user_input = sanitize_input(update.message.text)
      if not user_input:
          await update.message.reply_text("Invalid input received.")
          return
      if not check_user_rate_limit(user_id):
          await update.message.reply_text("You're sending requests too quickly. ...")
          return
      current_state = context.user_data.get('state')
      if current_state:
          return await handle_conversation_state(update, context)
      ... resolution, see resolve_intent ...
      if not parsed:
          await update.message.reply_text("I didn't understand that command. ...")
          return
      intent = parsed['intent']
      params = parsed.get('parameters', {})
      ... dispatch ...
  \<close>
\<close>

definition handle_message ::
  "env \<Rightarrow> int \<Rightarrow> pyval \<Rightarrow> files \<Rightarrow> user_data \<Rightarrow> outcome" where
  "handle_message e user_id text fs c =
     (let user_input = sanitize_input text
      in if user_input = [] then (Returned, [Reply InvalidInput], fs, c)
         else
           let (allowed, fs1) =
                 check_user_rate_limit (unix_time e) (now_general e) (disk_rate e) user_id
                   ''general'' fs
           in case allowed of
                None \<Rightarrow> (Raised, [], fs1, c)
              | Some allowed \<Rightarrow>
              if \<not> allowed then (Returned, [Reply TooQuickly], fs1, c)
              else if (case state c of None \<Rightarrow> False | Some current_state \<Rightarrow> current_state \<noteq> [])
              then handle_conversation_state e user_id text fs1 c
              else
                case resolve_intent e user_input of
                  (Raised, calls, parsed) \<Rightarrow> (Raised, calls, fs1, c)
                | (Returned, calls, parsed) \<Rightarrow>
                    if \<not> truthy parsed then (Returned, calls @ [Reply NotUnderstood], fs1, c)
                    else
                      (case parsed of
                         VDict d \<Rightarrow>
                           (case dict_get d ''intent'' of
                              None \<Rightarrow> (Raised, calls, fs1, c)
                            | Some intent \<Rightarrow>
                                let params = (case dict_get d ''parameters'' of
                                                None \<Rightarrow> VDict [] | Some p \<Rightarrow> p)
                                in dispatch e user_id intent params calls fs1 c)
                       | _ \<Rightarrow> (Raised, calls, fs1, c)))"

section \<open>The bot as a state machine\<close>

text \<open>
  The bot holds the files and one \<^verbatim>\<open>user_data\<close> per user, empty at the start. An
  update is a message of a user together with the environment in which it is handled.
\<close>

type_synonym bot = "files \<times> (int \<Rightarrow> user_data)"

type_synonym update = "env \<times> int \<times> pyval"

definition deliver :: "update \<Rightarrow> bot \<Rightarrow> bot" where
  "deliver u b =
     (case u of (e, user_id, text) \<Rightarrow>
        case b of (fs, users) \<Rightarrow>
          case handle_message e user_id text fs (users user_id) of
            (done, acts, fs', c') \<Rightarrow> (fs', users(user_id := c')))"

definition run :: "update list \<Rightarrow> files \<Rightarrow> bot" where
  "run updates fs = fold deliver updates (fs, \<lambda>user_id. empty_user_data)"

text \<open>
  The ledger collaborator's side of the confirmation protocol: a result that asks for
  approval carries a handle that is not empty.
\<close>

definition handles_nonempty :: "env \<Rightarrow> bool" where
  "handles_nonempty e \<longleftrightarrow>
     (\<forall>sender recipient amount d txn.
        build_and_send_transaction e sender recipient amount = Some (VDict d)
        \<and> awaiting_approval d \<and> dict_get d ''unsigned_txn'' = Some txn \<longrightarrow> truthy txn)
     \<and> (\<forall>name supply description sender d txn.
          create_nft e name supply description sender = Some (VDict d)
          \<and> awaiting_approval d \<and> dict_get d ''unsigned_txn'' = Some txn \<longrightarrow> truthy txn)"

section \<open>Notions used in the statements and proofs\<close>

text \<open>
  The language model is unavailable for an input when no API key is set or the call raises.
\<close>

definition model_unavailable :: "env \<Rightarrow> pystr \<Rightarrow> bool" where
  "model_unavailable e user_input \<longleftrightarrow> \<not> api_key e \<or> chat_completion e user_input = None"

text \<open>
  \<open>needs P r\<close>: every text that \<open>r\<close> matches holds a code point in \<open>P\<close>. A text
  without such a code point has no match. \<open>plain\<close> code points are those that no step
  of the sanitizer touches inside a text.
\<close>

fun needs :: "(nat \<Rightarrow> bool) \<Rightarrow> regex \<Rightarrow> bool" where
  "needs P (Cls Q) = (\<forall>c. Q c \<longrightarrow> P c)"
| "needs P (Cat a b) = (needs P a \<or> needs P b)"
| "needs P (Or a b) = (needs P a \<and> needs P b)"
| "needs P (Rep lo hi gr r) = (0 < lo \<and> needs P r)"
| "needs P (Grp n r) = needs P r"
| "needs P Eps = False"
| "needs P Eol = False"

fun frame_needs :: "(nat \<Rightarrow> bool) \<Rightarrow> frame \<Rightarrow> bool" where
  "frame_needs P (R r) = needs P r"
| "frame_needs P _ = False"

definition plain :: "nat \<Rightarrow> bool" where
  "plain c \<longleftrightarrow> \<not> is_control c \<and> c \<noteq> 40 \<and> c \<noteq> 58 \<and> c \<noteq> 60 \<and> c \<noteq> 61"

text \<open>
  \<open>in_flow\<close> is the test \<^verbatim>\<open>if current_state:\<close> of \<^verbatim>\<open>handle_message\<close>;
  \<open>attempts\<close> is \<^verbatim>\<open>context.user_data.get('failed_attempts', 0)\<close>; \<open>has_pending\<close>
  says that \<^verbatim>\<open>pending_txn\<close> is present and not empty. The other three name the parts of
  an outcome.
\<close>

definition in_flow :: "user_data \<Rightarrow> bool" where
  "in_flow c = (case state c of None \<Rightarrow> False | Some current_state \<Rightarrow> current_state \<noteq> [])"

definition has_pending :: "user_data \<Rightarrow> bool" where
  "has_pending c = (case pending_txn c of None \<Rightarrow> False | Some txn \<Rightarrow> truthy txn)"

definition ctx_after :: "outcome \<Rightarrow> user_data" where
  "ctx_after out = snd (snd (snd out))"

definition files_after :: "outcome \<Rightarrow> files" where
  "files_after out = fst (snd (snd out))"

definition actions :: "outcome \<Rightarrow> action list" where
  "actions out = fst (snd out)"

definition attempts :: "user_data \<Rightarrow> nat" where
  "attempts c = (case failed_attempts c of None \<Rightarrow> 0 | Some n \<Rightarrow> n)"

text \<open>
  The moves of one user's \<^verbatim>\<open>user_data\<close> that handling one message can make:
  nothing, a \<^verbatim>\<open>clear()\<close>, the entry into one of the flows from the idle state, the
  step from the mnemonic to its password, and a counted failure in the password state of a
  transaction. \<open>pending_with_state\<close> is the invariant of the confirmation protocol.
\<close>

inductive moves :: "env \<Rightarrow> user_data \<Rightarrow> user_data \<Rightarrow> bool" for e :: env where
  stay: "moves e c c"
| clear: "moves e c empty_user_data"
| create: "\<not> in_flow c \<Longrightarrow> moves e c (c\<lparr>state := Some ''creating_wallet''\<rparr>)"
| connect: "\<not> in_flow c \<Longrightarrow> moves e c (c\<lparr>state := Some ''connecting_wallet''\<rparr>)"
| phrase: "state c = Some ''connecting_wallet'' \<Longrightarrow>
           moves e c (c\<lparr>mnemonic := Some m, state := Some ''connecting_password''\<rparr>)"
| await: "\<not> in_flow c \<Longrightarrow> (handles_nonempty e \<longrightarrow> truthy txn) \<Longrightarrow>
          moves e c (enter_transaction_password txn kind c)"
| failed: "state c = Some ''transaction_password'' \<Longrightarrow> pending_txn c \<noteq> None \<Longrightarrow>
           moves e c (c\<lparr>failed_attempts := Some n\<rparr>)"

definition pending_with_state :: "user_data \<Rightarrow> bool" where
  "pending_with_state c \<longleftrightarrow> (pending_txn c \<noteq> None) = (state c = Some ''transaction_password'')"

text \<open>An environment and an address for the examples.\<close>

definition example_wallet :: wallet_data where
  "example_wallet = \<lparr>wd_address = VStr (py ''ADDR''), wd_mnemonic = VStr (py ''abandon ability''),
                      wd_encrypted_mnemonic = VStr (py ''secret'')\<rparr>"

definition example_env :: env where
  "example_env =
     \<lparr>uni = \<lparr>decimal_beyond_ascii = (\<lambda>c. False), word_beyond_ascii = (\<lambda>c. False)\<rparr>,
      float_of_text = (\<lambda>s. None), text_to_number = (\<lambda>s. None), json_loads = (\<lambda>s. None),
      unix_time = 1700000000, now_general = 10, now_expiry = 11, now_activity = 12,
      now_transaction = 13, now_created = 14, now_stamped = 15,
      disk_validate = True, disk_rate = True, disk_wallet = True, disk_disconnect = True,
      api_key = False, chat_completion = (\<lambda>s. None),
      create_wallet = (\<lambda>p. Some example_wallet),
      connect_wallet = (\<lambda>m p. Some example_wallet),
      sign_transaction = (\<lambda>t p. if p = py ''hunter22'' then Some (VObj 8) else None),
      get_algod_client = True,
      build_and_send_transaction = (\<lambda>s r a. Some (VDict [(py ''status'', VStr (py ''awaiting_approval'')),
                                                       (py ''unsigned_txn'', VObj 7)])),
      create_nft = (\<lambda>n s d a. Some (VDict [(py ''status'', VStr (py ''awaiting_approval'')),
                                          (py ''unsigned_txn'', VObj 7)])),
      send_transaction = (\<lambda>t. Some (VStr (py ''TXID''))),
      wait_for_confirmation = (\<lambda>t. Some (VDict [(py ''asset-index'', VNum (Fin 7))])),
      account_info = (\<lambda>a. Some (VNum (Fin 5)))\<rparr>"

definition example_address :: pystr where
  "example_address = py ''AAAAAAAAAABBBBBBBBBBCCCCCCCCCCDDDDDDDDDDEEEEEEEEEE22334455''"

text \<open>A session as \<open>handle_wallet_creation_password\<close> writes it, for the examples.\<close>

definition example_session :: "time \<Rightarrow> time list option \<Rightarrow> session" where
  "example_session stamp ts =
     \<lparr>address = VStr (py ''ADDR''), encrypted_mnemonic = VStr (py ''secret''),
      created_at = Some stamp, connected_at = None, last_activity = Some stamp,
      recent_transactions = ts\<rparr>"

definition example_files :: "int \<Rightarrow> session \<Rightarrow> files" where
  "example_files user_id user_session = [SESSIONS_FILE \<mapsto> Store [user_id \<mapsto> user_session]]"

text \<open>
  More examples: the answer \<^verbatim>\<open>{"intent": "balance", "parameters": {}}\<close> of the
  language model by its code points, an environment in which the model gives that answer,
  the \<^verbatim>\<open>user_data\<close> of a user who was asked for the password of a transfer, of one
  who was asked for the password of a new wallet, and of one who was asked for a mnemonic.
\<close>

definition balance_json :: pystr where
  "balance_json =
     [123, 34, 105, 110, 116, 101, 110, 116, 34, 58, 32, 34, 98, 97, 108, 97, 110, 99, 101, 34,
      44, 32, 34, 112, 97, 114, 97, 109, 101, 116, 101, 114, 115, 34, 58, 32, 123, 125, 125]"

definition example_env_balance :: env where
  "example_env_balance =
     example_env\<lparr>api_key := True,
       chat_completion := (\<lambda>s. Some balance_json),
       json_loads := (\<lambda>s. if s = balance_json
                             then Some (VDict [(py ''intent'', VStr (py ''balance'')),
                                               (py ''parameters'', VDict [])])
                             else None)\<rparr>"


definition creating_wallet :: user_data where
  "creating_wallet = empty_user_data\<lparr>state := Some ''creating_wallet''\<rparr>"


text \<open>The message "send 5 algo to" followed by the example address.\<close>

definition example_send :: pyval where
  "example_send = VStr (py ''send 5 algo to '' @ example_address)"

section \<open>Facts about the matcher\<close>

lemma bt_suffix: "bt k s g = Some (s', g') \<Longrightarrow> suffix s' s"
proof (induction k s g arbitrary: s' g' rule: bt.induct)
  case (2 P k s g)
  then show ?case
    by (auto split: list.splits if_splits intro: suffix_ConsI)
next
  case (4 a b k s g)
  then show ?case
    by (auto split: option.splits)
next
  case (10 hi gr r k s g)
  then show ?case
    by (auto split: option.splits if_splits)
qed (auto split: if_splits)

lemma re_match_suffix: "re_match r s = Some (s', g) \<Longrightarrow> suffix s' s"
  unfolding re_match_def by (rule bt_suffix)

lemma re_sub_set: "set (re_sub r s) \<subseteq> set s"
proof (induction r s rule: re_sub.induct)
  case (1 r)
  then show ?case by simp
next
  case (2 r c cs)
  show ?case
  proof (cases "re_match r (c # cs)")
    case None
    with "2.IH"(1) show ?thesis by auto
  next
    case (Some m)
    obtain s' g where m: "m = (s', g)" by (cases m)
    have "suffix s' (c # cs)" using Some m by (auto dest: re_match_suffix)
    then have sub: "set s' \<subseteq> set (c # cs)" by (rule set_mono_suffix)
    show ?thesis
    proof (cases "length s' < Suc (length cs)")
      case True
      have "set (re_sub r s') \<subseteq> set s'"
        by (rule "2.IH"(2)[OF Some m[symmetric] True])
      with sub Some m True show ?thesis by auto
    next
      case False
      have "set (re_sub r cs) \<subseteq> set cs"
        by (rule "2.IH"(3)[OF Some m[symmetric] False])
      with Some m False show ?thesis by auto
    qed
  qed
qed

lemma re_sub_length: "length (re_sub r s) \<le> length s"
proof (induction r s rule: re_sub.induct)
  case (1 r)
  then show ?case by simp
next
  case (2 r c cs)
  show ?case
  proof (cases "re_match r (c # cs)")
    case None
    with "2.IH"(1) show ?thesis by auto
  next
    case (Some m)
    obtain s' g where m: "m = (s', g)" by (cases m)
    show ?thesis
    proof (cases "length s' < Suc (length cs)")
      case True
      have "length (re_sub r s') \<le> length s'"
        by (rule "2.IH"(2)[OF Some m[symmetric] True])
      with Some m True show ?thesis by simp
    next
      case False
      have "length (re_sub r cs) \<le> length cs"
        by (rule "2.IH"(3)[OF Some m[symmetric] False])
      with Some m False show ?thesis by simp
    qed
  qed
qed

lemma re_sub_Cls: "re_sub (Cls P) s = filter (\<lambda>c. \<not> P c) s"
  by (induction s) (auto simp: re_match_def)

lemma foldl_re_sub_set: "set (foldl (\<lambda>acc p. re_sub p acc) s ps) \<subseteq> set s"
proof (induction ps arbitrary: s)
  case Nil
  then show ?case by simp
next
  case (Cons p ps)
  have "set (foldl (\<lambda>acc p. re_sub p acc) (re_sub p s) ps) \<subseteq> set (re_sub p s)"
    by (rule Cons.IH)
  also have "\<dots> \<subseteq> set s" by (rule re_sub_set)
  finally show ?case by simp
qed

lemma foldl_re_sub_length: "length (foldl (\<lambda>acc p. re_sub p acc) s ps) \<le> length s"
proof (induction ps arbitrary: s)
  case Nil
  then show ?case by simp
next
  case (Cons p ps)
  have "length (foldl (\<lambda>acc p. re_sub p acc) (re_sub p s) ps) \<le> length (re_sub p s)"
    by (rule Cons.IH)
  also have "\<dots> \<le> length s" by (rule re_sub_length)
  finally show ?case by simp
qed

lemma py_strip_set: "set (py_strip s) \<subseteq> set s"
proof -
  have "set (py_strip s) \<subseteq> set (dropWhile is_space s)"
    unfolding py_strip_def using set_dropWhileD by fastforce
  also have "\<dots> \<subseteq> set s" using set_dropWhileD by fastforce
  finally show ?thesis .
qed

lemma py_strip_length: "length (py_strip s) \<le> length s"
proof -
  have "length (py_strip s) = length (dropWhile is_space (rev (dropWhile is_space s)))"
    by (simp add: py_strip_def)
  also have "\<dots> \<le> length (rev (dropWhile is_space s))" by (rule length_dropWhile_le)
  also have "\<dots> \<le> length s" by (simp add: length_dropWhile_le)
  finally show ?thesis .
qed

section \<open>The sanitizer is total, bounded and free of control characters\<close>

text \<open>
  Claim C7. For every input value \<open>sanitize_input\<close> returns a string (the function has no
  raising branch): the empty string for a value that is not a string and for the empty
  string, and in every case a string of at most \<open>MAX_MESSAGE_LENGTH = 1000\<close> code points
  none of which is a control character (U+0000 to U+001F, U+007F to U+009F).
\<close>

theorem sanitize_input_bounded_clean:
  "((\<forall>s. text \<noteq> VStr s) \<or> text = VStr [] \<longrightarrow> sanitize_input text = [])
   \<and> length (sanitize_input text) \<le> 1000
   \<and> MAX_MESSAGE_LENGTH = 1000
   \<and> list_all (\<lambda>c. \<not> (c \<le> 31 \<or> (127 \<le> c \<and> c \<le> 159))) (sanitize_input text)"
proof (cases "text")
  case (VStr s)
  let ?a = "take MAX_MESSAGE_LENGTH (re_sub (Cls is_control) s)"
  let ?b = "foldl (\<lambda>acc p. re_sub p acc) ?a dangerous_patterns"
  have len: "length (py_strip ?b) \<le> 1000"
  proof -
    have "length (py_strip ?b) \<le> length ?b" by (rule py_strip_length)
    also have "\<dots> \<le> length ?a" by (rule foldl_re_sub_length)
    also have "\<dots> \<le> 1000" by (simp add: MAX_MESSAGE_LENGTH_def)
    finally show ?thesis .
  qed
  have "set (py_strip ?b) \<subseteq> set ?b" by (rule py_strip_set)
  also have "\<dots> \<subseteq> set ?a" by (rule foldl_re_sub_set)
  also have "\<dots> \<subseteq> set (re_sub (Cls is_control) s)" by (rule set_take_subset)
  also have "\<dots> \<subseteq> {c. \<not> is_control c}" by (auto simp: re_sub_Cls)
  finally have ctl: "list_all (\<lambda>c. \<not> is_control c) (py_strip ?b)"
    by (auto simp: list_all_iff)
  show ?thesis
    using VStr len ctl
    by (simp add: sanitize_input_def Let_def MAX_MESSAGE_LENGTH_def is_control_def)
qed (simp_all add: sanitize_input_def MAX_MESSAGE_LENGTH_def)

theorem sanitize_input_bounded_clean_witness:
  "sanitize_input (VNum (Fin 5)) = []
   \<and> sanitize_input (VStr []) = []
   \<and> length (sanitize_input (VStr [7, 104, 105])) \<le> 1000
   \<and> list_all (\<lambda>c. \<not> (c \<le> 31 \<or> (127 \<le> c \<and> c \<le> 159))) (sanitize_input (VStr [7, 104, 105]))"
  using sanitize_input_bounded_clean [of "VNum (Fin 5)"]
    sanitize_input_bounded_clean [of "VStr []"]
    sanitize_input_bounded_clean [of "VStr [7, 104, 105]"]
  by simp

section \<open>Corruption recovery\<close>

text \<open>
  What \<open>load_sessions\<close> does recover from: without a store file it returns the empty
  mapping and leaves the files alone; on a text that \<^verbatim>\<open>json.load\<close> rejects with
  \<^verbatim>\<open>JSONDecodeError\<close> it returns the empty mapping, and afterwards the same text is found
  under the backup path named by the clock reading, the store path is free and no other
  file has changed.
\<close>

lemma load_sessions_decode_error:
  "(fs SESSIONS_FILE = None \<longrightarrow> load_sessions unix fs = (Some (Sessions Map.empty), fs))
   \<and> (fs SESSIONS_FILE = Some (Garbage t) \<longrightarrow>
        fst (load_sessions unix fs) = Some (Sessions Map.empty)
        \<and> snd (load_sessions unix fs) (BACKUP_FILE unix) = Some (Garbage t)
        \<and> snd (load_sessions unix fs) SESSIONS_FILE = None
        \<and> (\<forall>p. p \<noteq> SESSIONS_FILE \<and> p \<noteq> BACKUP_FILE unix \<longrightarrow>
               snd (load_sessions unix fs) p = fs p))"
  by (simp add: load_sessions_def)

text \<open>
  Claim C8. The recovery does not cover every invalid content. A store file that holds the
  two bytes \<^verbatim>\<open>FF FE\<close> is not UTF-8: \<^verbatim>\<open>json.load\<close> raises \<^verbatim>\<open>UnicodeDecodeError\<close>, which
  \<^verbatim>\<open>except (json.JSONDecodeError, IOError)\<close> does not catch. The exception leaves
  \<open>load_sessions\<close>: no mapping is returned, and the files are as before, so the store
  file is still in place and no backup has been made. A valid JSON text that is not an
  object, as \<^verbatim>\<open>[]\<close>, is returned as it is: not a mapping either, and no backup.
\<close>

theorem load_sessions_undecodable:
  "load_sessions 1700000000 [SESSIONS_FILE \<mapsto> Unloadable [255, 254]]
     = (None, [SESSIONS_FILE \<mapsto> Unloadable [255, 254]])
   \<and> [SESSIONS_FILE \<mapsto> Unloadable [255, 254]] (BACKUP_FILE 1700000000) = None
   \<and> load_sessions 1700000000 [SESSIONS_FILE \<mapsto> Other (FList [])]
     = (Some (Foreign (FList [])), [SESSIONS_FILE \<mapsto> Other (FList [])])"
  by (simp add: load_sessions_def)

section \<open>Transaction rate limit\<close>

text \<open>
  Claim C4. Take a stored session whose \<^verbatim>\<open>recent_transactions\<close> holds exactly ten stamps.
  If all ten lie within the trailing hour, \<open>check_user_rate_limit\<close> for a transaction
  returns false and the files are unchanged: no stamp is appended. If the oldest (the
  first) stamp is older than one hour and the other nine lie within the hour, pruning drops
  it, the call returns true, and with a working disk the stored list is the nine stamps
  followed by the current time.
\<close>

theorem rate_limit_ten_transactions:
  assumes "fs SESSIONS_FILE = Some (Store m)"
    and "m user_id = Some user_session"
    and "recent_transactions user_session = Some ts"
    and "length ts = 10"
  shows "(list_all (\<lambda>t. t > now - hours 1) ts \<longrightarrow>
            check_user_rate_limit unix now disk_ok user_id ''transaction'' fs = (Some False, fs))
         \<and> (ts = oldest # rest \<and> oldest < now - hours 1
              \<and> list_all (\<lambda>t. t > now - hours 1) rest \<and> disk_ok \<longrightarrow>
              fst (check_user_rate_limit unix now disk_ok user_id ''transaction'' fs) = Some True
              \<and> stored_session
                   (snd (check_user_rate_limit unix now disk_ok user_id ''transaction'' fs))
                   user_id
                 = Some (user_session\<lparr>recent_transactions := Some (rest @ [now])\<rparr>)
              \<and> oldest \<notin> set (rest @ [now]))"
proof (intro conjI impI)
  assume all: "list_all (\<lambda>t. t > now - hours 1) ts"
  then have "filter (\<lambda>t. t > now - hours 1) ts = ts"
    by (simp add: list_all_iff)
  with assms
  show "check_user_rate_limit unix now disk_ok user_id ''transaction'' fs = (Some False, fs)"
    by (simp add: check_user_rate_limit_def load_sessions_def MAX_TRANSACTIONS_PER_HOUR_def)
next
  assume h: "ts = oldest # rest \<and> oldest < now - hours 1
     \<and> list_all (\<lambda>t. t > now - hours 1) rest \<and> disk_ok"
  then have f: "filter (\<lambda>t. t > now - hours 1) ts = rest"
    by (simp add: list_all_iff)
  from h assms have len: "length rest = 9" by simp
  from assms f len h
  show "fst (check_user_rate_limit unix now disk_ok user_id ''transaction'' fs) = Some True"
    by (simp add: check_user_rate_limit_def load_sessions_def MAX_TRANSACTIONS_PER_HOUR_def)
  from assms f len h
  show "stored_session
          (snd (check_user_rate_limit unix now disk_ok user_id ''transaction'' fs)) user_id
        = Some (user_session\<lparr>recent_transactions := Some (rest @ [now])\<rparr>)"
    by (simp add: check_user_rate_limit_def load_sessions_def MAX_TRANSACTIONS_PER_HOUR_def
        save_sessions_def stored_session_def)
  from h show "oldest \<notin> set (rest @ [now])"
    by (auto simp: list_all_iff hours_def)
qed

theorem rate_limit_ten_transactions_witness:
  "check_user_rate_limit 0 7200000000 True 42 ''transaction''
     (example_files 42 (example_session 0 (Some [3600000001, 3600000002, 3600000003,
        3600000004, 3600000005, 3600000006, 3600000007, 3600000008, 3600000009, 3600000010])))
   = (Some False,
      example_files 42 (example_session 0 (Some [3600000001, 3600000002, 3600000003,
        3600000004, 3600000005, 3600000006, 3600000007, 3600000008, 3600000009, 3600000010])))
   \<and> fst (check_user_rate_limit 0 7200000000 True 42 ''transaction''
       (example_files 42 (example_session 0 (Some [3599999999, 3600000002, 3600000003,
          3600000004, 3600000005, 3600000006, 3600000007, 3600000008, 3600000009,
          3600000010])))) = Some True
   \<and> stored_session (snd (check_user_rate_limit 0 7200000000 True 42 ''transaction''
       (example_files 42 (example_session 0 (Some [3599999999, 3600000002, 3600000003,
          3600000004, 3600000005, 3600000006, 3600000007, 3600000008, 3600000009,
          3600000010]))))) 42
     = Some (example_session 0 (Some [3600000002, 3600000003,
          3600000004, 3600000005, 3600000006, 3600000007, 3600000008, 3600000009,
          3600000010, 7200000000]))"
  using rate_limit_ten_transactions [where fs = "example_files 42 (example_session 0
        (Some [3600000001, 3600000002, 3600000003, 3600000004, 3600000005, 3600000006,
          3600000007, 3600000008, 3600000009, 3600000010]))"
      and m = "[42 \<mapsto> example_session 0
        (Some [3600000001, 3600000002, 3600000003, 3600000004, 3600000005, 3600000006,
          3600000007, 3600000008, 3600000009, 3600000010])]"
      and user_id = 42 and now = 7200000000 and unix = 0 and disk_ok = True
      and user_session = "example_session 0
        (Some [3600000001, 3600000002, 3600000003, 3600000004, 3600000005, 3600000006,
          3600000007, 3600000008, 3600000009, 3600000010])"
      and ts = "[3600000001, 3600000002, 3600000003, 3600000004, 3600000005, 3600000006,
          3600000007, 3600000008, 3600000009, 3600000010]"]
    rate_limit_ten_transactions [where fs = "example_files 42 (example_session 0
        (Some [3599999999, 3600000002, 3600000003, 3600000004, 3600000005, 3600000006,
          3600000007, 3600000008, 3600000009, 3600000010]))"
      and m = "[42 \<mapsto> example_session 0
        (Some [3599999999, 3600000002, 3600000003, 3600000004, 3600000005, 3600000006,
          3600000007, 3600000008, 3600000009, 3600000010])]"
      and user_id = 42 and now = 7200000000 and unix = 0 and disk_ok = True
      and user_session = "example_session 0
        (Some [3599999999, 3600000002, 3600000003, 3600000004, 3600000005, 3600000006,
          3600000007, 3600000008, 3600000009, 3600000010])"
      and ts = "[3599999999, 3600000002, 3600000003, 3600000004, 3600000005, 3600000006,
          3600000007, 3600000008, 3600000009, 3600000010]"
      and oldest = 3599999999
      and rest = "[3600000002, 3600000003, 3600000004, 3600000005, 3600000006,
          3600000007, 3600000008, 3600000009, 3600000010]"]
  by (simp add: example_files_def example_session_def hours_def)

section \<open>Session validation\<close>

text \<open>
  Claim C9, as worded, fails when the clock is set back. \<^verbatim>\<open>datetime.now()\<close> is the local
  wall clock. Take a session stamped at 02:30 (in microseconds, 9000000000) and a call
  whose two readings are 01:30 and one microsecond later, as after the end of daylight
  saving time. The session is not expired, the call returns true on a working disk, and
  it rewrites \<^verbatim>\<open>last_activity\<close> to 5400000001, which is less than the value it replaced.
\<close>

theorem validate_session_clock_set_back:
  "validate_session 0 5400000000 5400000001 True 42
      (example_files 42 (example_session 9000000000 None))
   = (Some True,
      example_files 42 ((example_session 9000000000 None)\<lparr>last_activity := Some 5400000001\<rparr>))
   \<and> last_activity (example_session 9000000000 None) = Some 9000000000
   \<and> \<not> (5400000000 - 9000000000 > hours SESSION_TIMEOUT_HOURS)
   \<and> \<not> (9000000000 \<le> (5400000001 :: time))"
  by (simp add: validate_session_def load_sessions_def save_sessions_def example_files_def
      example_session_def hours_def SESSION_TIMEOUT_HOURS_def fun_upd_twist)

text \<open>
  Claim C9, amended. Take a user whose stored session is not expired: its
  \<^verbatim>\<open>last_activity\<close>, if there is one, is at most 24 hours before the clock reading \<open>t1\<close> of
  the expiry test. The second call follows at once: its reading \<open>t3\<close> for the expiry test
  is at most 24 hours after the stamp \<open>t2\<close> of the first call. The disk works. Then both
  calls return true, and each rewrites \<^verbatim>\<open>last_activity\<close> to its own clock reading: the
  first to \<open>t2\<close>, the second to \<open>t4\<close>. The new value is compared with nothing: it is
  not less than the value it replaced exactly when the clock reading is.
\<close>

theorem validate_session_twice:
  assumes "stored_session fs user_id = Some user_session"
    and "case last_activity user_session of
           None \<Rightarrow> True
         | Some stamp \<Rightarrow> t1 - stamp \<le> hours SESSION_TIMEOUT_HOURS"
    and "t3 - t2 \<le> hours SESSION_TIMEOUT_HOURS"
  shows "fst (validate_session unix1 t1 t2 True user_id fs) = Some True
         \<and> stored_session (snd (validate_session unix1 t1 t2 True user_id fs)) user_id
           = Some (user_session\<lparr>last_activity := Some t2\<rparr>)
         \<and> fst (validate_session unix2 t3 t4 True user_id
                  (snd (validate_session unix1 t1 t2 True user_id fs))) = Some True
         \<and> stored_session
             (snd (validate_session unix2 t3 t4 True user_id
                     (snd (validate_session unix1 t1 t2 True user_id fs)))) user_id
           = Some (user_session\<lparr>last_activity := Some t4\<rparr>)"
proof -
  from assms(1) obtain m
    where m: "fs SESSIONS_FILE = Some (Store m)" "m user_id = Some user_session"
    by (auto simp: stored_session_def split: option.splits content.splits)
  have fresh: "\<not> (case last_activity user_session of
                    None \<Rightarrow> False
                  | Some stamp \<Rightarrow> t1 - stamp > hours SESSION_TIMEOUT_HOURS)"
    using assms(2) by (auto split: option.splits)
  have first: "validate_session unix1 t1 t2 True user_id fs
     = (Some True,
        (fs(TEMP_FILE := None))
          (SESSIONS_FILE \<mapsto> Store (m(user_id \<mapsto> user_session\<lparr>last_activity := Some t2\<rparr>))))"
    using m fresh
    by (auto simp: validate_session_def load_sessions_def save_sessions_def)
  have second: "validate_session unix2 t3 t4 True user_id
      ((fs(TEMP_FILE := None))
         (SESSIONS_FILE \<mapsto> Store (m(user_id \<mapsto> user_session\<lparr>last_activity := Some t2\<rparr>))))
     = (Some True,
        (fs(TEMP_FILE := None))
          (SESSIONS_FILE \<mapsto> Store (m(user_id \<mapsto> user_session\<lparr>last_activity := Some t4\<rparr>))))"
    using assms(3)
    by (auto simp: validate_session_def load_sessions_def save_sessions_def)
  show ?thesis
    by (simp add: first second stored_session_def)
qed

theorem validate_session_twice_witness:
  "fst (validate_session 0 3600000000 3600000005 True 42
          (example_files 42 (example_session 0 None))) = Some True
   \<and> stored_session (snd (validate_session 0 3600000000 3600000005 True 42
          (example_files 42 (example_session 0 None)))) 42
     = Some ((example_session 0 None)\<lparr>last_activity := Some 3600000005\<rparr>)
   \<and> fst (validate_session 0 3600000007 3600000009 True 42
        (snd (validate_session 0 3600000000 3600000005 True 42
          (example_files 42 (example_session 0 None))))) = Some True
   \<and> stored_session (snd (validate_session 0 3600000007 3600000009 True 42
        (snd (validate_session 0 3600000000 3600000005 True 42
          (example_files 42 (example_session 0 None)))))) 42
     = Some ((example_session 0 None)\<lparr>last_activity := Some 3600000009\<rparr>)"
proof -
  have s0: "stored_session (example_files 42 (example_session 0 None)) 42
            = Some (example_session 0 None)"
    by (simp add: stored_session_def example_files_def)
  have h: "case last_activity (example_session 0 None) of None \<Rightarrow> True
           | Some stamp \<Rightarrow> 3600000000 - stamp \<le> hours SESSION_TIMEOUT_HOURS"
    by (simp add: example_session_def hours_def SESSION_TIMEOUT_HOURS_def)
  have i: "(3600000007::int) - 3600000005 \<le> hours SESSION_TIMEOUT_HOURS"
    by (simp add: hours_def SESSION_TIMEOUT_HOURS_def)
  from validate_session_twice [OF s0 h i] show ?thesis
    by simp
qed

section \<open>Texts without a match\<close>

lemma bt_Rep_numeral:
  "bt (R (Rep (numeral n) hi gr r) # k) s g =
     (if hi = Some 0 then None else bt (R r # R (Rep (pred_numeral n) (dec hi) gr r) # k) s g)"
  by (simp add: numeral_eq_Suc)

lemma rep_exact:
  "bt (R (Rep n (Some n) gr (Cls P)) # k) s g =
     (if n \<le> length s \<and> list_all P (take n s) then bt k (drop n s) g else None)"
proof (induction n arbitrary: s)
  case 0
  then show ?case by simp
next
  case (Suc n)
  show ?case
  proof (cases s)
    case Nil
    then show ?thesis by simp
  next
    case (Cons c cs)
    with Suc show ?thesis by simp
  qed
qed

lemma bt_needs:
  "list_ex (frame_needs P) k \<Longrightarrow> list_all (\<lambda>c. \<not> P c) s \<Longrightarrow> bt k s g = None"
proof (induction k s g rule: bt.induct)
  case (2 Q k s g)
  then show ?case by (cases s) auto
next
  case (4 a b k s g)
  then show ?case by (auto split: option.splits)
next
  case (10 hi gr r k s g)
  then show ?case by (auto split: option.splits)
qed auto

lemma re_match_needs:
  "needs P r \<Longrightarrow> list_all (\<lambda>c. \<not> P c) s \<Longrightarrow> re_match r s = None"
  unfolding re_match_def by (rule bt_needs) simp_all

lemma re_search_needs:
  "needs P r \<Longrightarrow> list_all (\<lambda>c. \<not> P c) s \<Longrightarrow> re_search r s = None"
  by (induction s) (simp_all add: re_match_needs)

lemma re_sub_needs:
  "needs P r \<Longrightarrow> list_all (\<lambda>c. \<not> P c) s \<Longrightarrow> re_sub r s = s"
  by (induction s) (simp_all add: re_match_needs)

lemma ci_eq_punct:
  "l = 40 \<or> l = 58 \<or> l = 60 \<or> l = 61 \<Longrightarrow> ci_eq l c \<longleftrightarrow> c = l"
  by (auto simp: ci_eq_def ci_fold_def ascii_lower_def)

lemma needs_re_cat_Cons: "needs P (re_cat (r # rs)) \<longleftrightarrow> needs P r \<or> (rs \<noteq> [] \<and> needs P (re_cat rs))"
  by (cases rs) auto

lemma dangerous_needs:
  "list_all (\<lambda>r. needs (\<lambda>c. c = 40 \<or> c = 58 \<or> c = 60 \<or> c = 61) r) dangerous_patterns"
  by (simp add: dangerous_patterns_def re_word_def lit_def ci_eq_punct)

lemma foldl_re_sub_needs:
  "list_all (needs P) ps \<Longrightarrow> list_all (\<lambda>c. \<not> P c) s \<Longrightarrow> foldl (\<lambda>acc p. re_sub p acc) s ps = s"
proof (induction ps)
  case Nil
  then show ?case by simp
next
  case (Cons p ps)
  then have "re_sub p s = s" by (simp add: re_sub_needs[where P = P])
  with Cons show ?case by simp
qed

lemma py_strip_id: "s \<noteq> [] \<Longrightarrow> \<not> is_space (hd s) \<Longrightarrow> \<not> is_space (last s) \<Longrightarrow> py_strip s = s"
proof -
  assume a: "s \<noteq> []" "\<not> is_space (hd s)" "\<not> is_space (last s)"
  have 1: "dropWhile is_space s = s"
    using a by (simp add: dropWhile_eq_self_iff)
  have 2: "dropWhile is_space (rev s) = rev s"
    using a by (simp add: dropWhile_eq_self_iff hd_rev)
  show ?thesis by (simp add: py_strip_def 1 2)
qed

lemma sanitize_plain:
  assumes "s \<noteq> []" "length s \<le> 1000" "list_all plain s" "\<not> is_space (hd s)" "\<not> is_space (last s)"
  shows "sanitize_input (VStr s) = s"
proof -
  have c: "re_sub (Cls is_control) s = s"
    using assms(3) by (simp add: re_sub_Cls plain_def list_all_iff filter_id_conv)
  have t: "take MAX_MESSAGE_LENGTH s = s"
    using assms(2) by (simp add: MAX_MESSAGE_LENGTH_def)
  have "list_all (\<lambda>c. \<not> (c = 40 \<or> c = 58 \<or> c = 60 \<or> c = 61)) s"
    using assms(3) by (simp add: plain_def list_all_iff)
  then have f: "foldl (\<lambda>acc p. re_sub p acc) s dangerous_patterns = s"
    by (rule foldl_re_sub_needs[OF dangerous_needs])
  show ?thesis
    using assms(1) by (simp add: sanitize_input_def c t f py_strip_id[OF assms(1,4,5)])
qed

section \<open>Evaluating the fallback patterns\<close>

lemmas class_defs = ci_eq_def ci_in_def ci_fold_def ascii_lower_def ascii_upper_def is_space_def
  is_word_def is_decimal_def decimal_or_dot_def base32_def ascii_letter_def ascii_digit_def
  name_char_def not_newline_def is_control_def

lemmas re_eval = re_match_def lit_def cls_def re_word_def re_plus_def re_star_def re_opt_def
  ws_def py_def bt_Rep_numeral

lemma validate_algorand_address_iff:
  "validate_algorand_address (VStr s) \<longleftrightarrow> length s = 58 \<and> list_all base32 s"
  by (auto simp: validate_algorand_address_def re_match_def cls_def rep_exact)

lemma address_group_bt:
  "bt (R address_group # k) s g =
     (if 58 \<le> length s \<and> list_all (ci_in base32) (take 58 s)
      then bt k (drop 58 s) (g(''address'' \<mapsto> take 58 s)) else None)"
  by (simp add: address_group_def cls_def rep_exact)

lemma base32_facts:
  assumes "list_all base32 s"
  shows "list_all (ci_in base32) s" "list_all (\<lambda>c. \<not> is_space c) s" "list_all plain s"
  using assms by (auto simp: list_all_iff ci_in_def base32_def is_space_def plain_def is_control_def)

lemma send_match:
  assumes "length addr = 58" "list_all base32 addr"
  shows "re_search (send_pattern U) (py ''send 5 algo to '' @ addr)
         = Some [''1'' \<mapsto> py ''send'', ''amount'' \<mapsto> py ''5'', ''address'' \<mapsto> addr]"
proof -
  note f = base32_facts[OF assms(2)]
  obtain a as where a: "addr = a # as" using assms(1) by (cases addr) auto
  have sp: "is_space a = False" using f(2) a by simp
  have len: "length as = 57" using assms(1) a by simp
  have ci: "list_all (ci_in base32) (a # as)" using f(1) a by simp
  have m: "re_match (send_pattern U) (py ''send 5 algo to '' @ a # as)
           = Some ([], [''1'' \<mapsto> py ''send'', ''amount'' \<mapsto> py ''5'', ''address'' \<mapsto> a # as])"
    using len ci
    by (simp add: send_pattern_def re_eval address_group_bt sp ci_eq_def ci_fold_def
        ascii_lower_def is_space_def[of "numeral n" for n] is_decimal_def decimal_or_dot_def
        ascii_digit_def)
  show ?thesis
    using m a by (simp add: py_def)
qed

lemma nft_needs_space: "list_all (needs is_space) nft_patterns"
  by (simp add: nft_patterns_def nft_tail_def re_plus_def ws_def)

lemma nft_search_none:
  assumes "list_all base32 addr"
  shows "list_all (\<lambda>p. re_search p (py ''send 5 algo to '' @ addr) = None) nft_patterns"
proof -
  note f = base32_facts[OF assms]
  have t: "list_all (\<lambda>p. re_search p addr = None) nft_patterns"
    using nft_needs_space f(2)
    by (auto simp: list_all_iff intro: re_search_needs[where P = is_space])
  then show ?thesis
    by (simp add: nft_patterns_def nft_tail_def verb_group_def re_eval ci_eq_def ci_fold_def
        ascii_lower_def)
qed

lemma nft_loop_none:
  "list_all (\<lambda>p. re_search p s = None) ps \<Longrightarrow> nft_loop ps s = VNone"
  by (induction ps) simp_all

lemma short_nft_none:
  "list_all (\<lambda>p. re_search p (py ''send 5 algo to short'') = None) nft_patterns"
  by (simp add: nft_patterns_def nft_tail_def verb_group_def re_eval ci_eq_def ci_fold_def
      ascii_lower_def)

lemma short_send_none:
  "re_search (send_pattern U) (py ''send 5 algo to short'') = None"
  by (simp add: send_pattern_def re_eval address_group_bt ci_eq_def ci_fold_def
      ascii_lower_def is_space_def is_decimal_def decimal_or_dot_def ascii_digit_def
      is_word_def ascii_letter_def)

lemma ai_parse_unavailable:
  "model_unavailable e s \<Longrightarrow> snd (ai_parse e s) = VNone"
  by (auto simp: model_unavailable_def ai_parse_def)

lemma sanitize_five: "sanitize_input (VStr (py ''5'')) = py ''5''"
  by (rule sanitize_plain) (simp_all add: py_def plain_def is_control_def is_space_def)

lemma resolve_unavailable:
  "model_unavailable e s \<Longrightarrow>
   resolve_intent e s =
     (Returned, fst (ai_parse e s),
      if \<not> truthy (parse_nft_command_fallback (VStr s))
      then parse_send_command_fallback e (VStr s)
      else parse_nft_command_fallback (VStr s))"
  using ai_parse_unavailable[of e s]
  by (cases "ai_parse e s") (simp add: resolve_intent_def Let_def)

lemma example_address_valid: "validate_algorand_address (VStr example_address)"
  by (simp add: validate_algorand_address_iff example_address_def py_def base32_def)

lemma send_fallback_resolves:
  assumes "validate_algorand_address (VStr addr)"
    and "model_unavailable e (py ''send 5 algo to '' @ addr)"
    and "model_unavailable e (py ''send 5 algo to short'')"
  shows "parse_send_command_fallback e (VStr (py ''send 5 algo to '' @ addr))
           = send_intent (Fin 5) addr
         \<and> resolve_intent e (py ''send 5 algo to '' @ addr)
           = (Returned, fst (ai_parse e (py ''send 5 algo to '' @ addr)),
              send_intent (Fin 5) addr)
         \<and> parse_send_command_fallback e (VStr (py ''send 5 algo to short'')) = VNone
         \<and> resolve_intent e (py ''send 5 algo to short'')
           = (Returned, fst (ai_parse e (py ''send 5 algo to short'')), VNone)"
proof -
  let ?t = "py ''send 5 algo to '' @ addr"
  let ?s = "py ''send 5 algo to short''"
  from assms(1) have len: "length addr = 58" and b32: "list_all base32 addr"
    by (simp_all add: validate_algorand_address_iff)
  note f = base32_facts[OF b32]
  have ne: "addr \<noteq> []" using len by auto
  have last: "\<not> is_space (last addr)"
    using f(2) ne by (simp add: list_all_iff)
  have san_t: "sanitize_input (VStr ?t) = ?t"
    using len f(3) ne last
    by (intro sanitize_plain) (simp_all add: py_def plain_def is_control_def is_space_def)
  have san_a: "sanitize_input (VStr addr) = addr"
    using len f(2,3) ne last
    by (intro sanitize_plain) (simp_all add: list_all_iff hd_in_set)
  have san_s: "sanitize_input (VStr ?s) = ?s"
    by (rule sanitize_plain) (simp_all add: py_def plain_def is_control_def is_space_def)
  have ne_t: "?t \<noteq> []" and ne_s: "?s \<noteq> []"
    by (simp_all add: py_def)
  have nft_t: "parse_nft_command_fallback (VStr ?t) = VNone"
    using nft_loop_none[OF nft_search_none[OF b32]] ne
    by (simp add: parse_nft_command_fallback_def san_t Let_def)
  have nft_s: "parse_nft_command_fallback (VStr ?s) = VNone"
    using nft_loop_none[OF short_nft_none] ne_s
    by (simp add: parse_nft_command_fallback_def san_s Let_def)
  have five: "py_float (float_of_text e) (py ''5'') = Some (Fin 5)"
    by (simp add: py_float_def py_def ascii_digit_def decimal_value_def)
  have send_t: "parse_send_command_fallback e (VStr ?t) = send_intent (Fin 5) addr"
    using assms(1) ne
    by (simp add: parse_send_command_fallback_def san_t send_match[OF len b32] group_def
        sanitize_five san_a five out_of_range_def Let_def)
  have send_s: "parse_send_command_fallback e (VStr ?s) = VNone"
    using ne_s
    by (simp add: parse_send_command_fallback_def san_s short_send_none Let_def)
  show ?thesis
    using resolve_unavailable[OF assms(2)] resolve_unavailable[OF assms(3)]
    by (simp add: nft_t nft_s send_t send_s)
qed

section \<open>Intent fallback\<close>

text \<open>
  Claim C6. Let the language model be unavailable (no API key, or the call raises). For
  every address that \<open>validate_algorand_address\<close> accepts, the input
  "send 5 algo to " followed by the address is resolved by the fallback matcher
  \<open>parse_send_command_fallback\<close> to the intent \<^verbatim>\<open>send_algo\<close> with amount 5 and that
  address as recipient, and this is what the resolution of \<^verbatim>\<open>handle_message\<close> yields.
  For the input "send 5 algo to short" the fallback matcher returns \<^verbatim>\<open>None\<close> and the
  resolution yields no intent.
\<close>

theorem fallback_send_resolution:
  assumes "validate_algorand_address (VStr addr)"
    and "model_unavailable e (py ''send 5 algo to '' @ addr)"
    and "model_unavailable e (py ''send 5 algo to short'')"
  shows "parse_send_command_fallback e (VStr (py ''send 5 algo to '' @ addr))
           = send_intent (Fin 5) addr
         \<and> resolve_intent e (py ''send 5 algo to '' @ addr)
           = (Returned, fst (ai_parse e (py ''send 5 algo to '' @ addr)),
              send_intent (Fin 5) addr)
         \<and> parse_send_command_fallback e (VStr (py ''send 5 algo to short'')) = VNone
         \<and> resolve_intent e (py ''send 5 algo to short'')
           = (Returned, fst (ai_parse e (py ''send 5 algo to short'')), VNone)"
  using send_fallback_resolves [OF assms] .

theorem fallback_send_resolution_witness:
  "resolve_intent example_env (py ''send 5 algo to '' @ example_address)
     = (Returned, [], send_intent (Fin 5) example_address)
   \<and> resolve_intent example_env (py ''send 5 algo to short'') = (Returned, [], VNone)"
proof -
  have u: "model_unavailable example_env s" for s
    by (simp add: model_unavailable_def example_env_def)
  have a: "fst (ai_parse example_env s) = []" for s
    by (simp add: ai_parse_def example_env_def)
  from fallback_send_resolution[OF example_address_valid u u] show ?thesis
    by (simp add: a)
qed

section \<open>Moves of the conversation state\<close>

lemma wallet_creation_moves:
  "moves e c (ctx_after (handle_wallet_creation_password e user_id password fs c))"
  by (auto simp: handle_wallet_creation_password_def ctx_after_def Let_def
      split: option.splits prod.splits loaded.splits intro: moves.intros)

lemma mnemonic_moves:
  "state c = Some ''connecting_wallet'' \<Longrightarrow>
   moves e c (ctx_after (handle_mnemonic_input phrase fs c))"
  by (auto simp: handle_mnemonic_input_def ctx_after_def Let_def intro: moves.intros)

lemma connection_moves:
  "moves e c (ctx_after (handle_connection_password e user_id password fs c))"
  by (auto simp: handle_connection_password_def ctx_after_def Let_def
      split: option.splits prod.splits loaded.splits intro: moves.intros)

lemma signing_failed_moves:
  "state c = Some ''transaction_password'' \<Longrightarrow> pending_txn c \<noteq> None \<Longrightarrow>
   moves e c (ctx_after (signing_failed calls fs c))"
  by (auto simp: signing_failed_def ctx_after_def Let_def intro: moves.intros)

lemma transaction_password_moves:
  "state c = Some ''transaction_password'' \<Longrightarrow>
   moves e c (ctx_after (handle_transaction_password e user_id password fs c))"
  by (auto simp: handle_transaction_password_def Let_def
      split: option.splits intro: moves.intros signing_failed_moves)
     (auto simp: ctx_after_def intro: moves.intros)

lemma send_transaction_moves:
  "\<not> in_flow c \<Longrightarrow> moves e c (ctx_after (handle_send_transaction e user_id params fs c))"
  by (auto simp: handle_send_transaction_def ctx_after_def Let_def handles_nonempty_def
      split: option.splits prod.splits bool.splits pyval.splits loaded.splits
      intro!: moves.intros)

lemma nft_creation_moves:
  "\<not> in_flow c \<Longrightarrow> moves e c (ctx_after (handle_nft_creation e user_id params fs c))"
  by (auto simp: handle_nft_creation_def ctx_after_def Let_def handles_nonempty_def
      split: option.splits prod.splits bool.splits pyval.splits loaded.splits
      intro!: moves.intros)

lemma balance_moves: "ctx_after (handle_balance_check e user_id fs c) = c"
  by (auto simp: handle_balance_check_def ctx_after_def Let_def
      split: option.splits prod.splits loaded.splits)

lemma disconnect_moves: "moves e c (ctx_after (handle_disconnect e user_id fs c))"
  by (auto simp: handle_disconnect_def ctx_after_def Let_def
      split: option.splits prod.splits loaded.splits bool.splits intro: moves.intros)

lemma conversation_moves:
  "moves e c (ctx_after (handle_conversation_state e user_id text fs c))"
proof -
  have a: "moves e c (ctx_after (Returned, acts, fs, c))" for acts
    by (simp add: ctx_after_def moves.stay)
  have b: "moves e c (ctx_after (Returned, acts, fs, empty_user_data))" for acts
    by (simp add: ctx_after_def moves.clear)
  show ?thesis
    unfolding handle_conversation_state_def Let_def
    by (simp add: a b wallet_creation_moves mnemonic_moves connection_moves
        transaction_password_moves)
qed

lemma guarded_ctx: "ctx_after (guarded calls out) = ctx_after out"
  by (cases out rule: prod_cases4) (auto simp: guarded_def ctx_after_def split: completion.splits)

lemma dispatch_moves:
  "\<not> in_flow c \<Longrightarrow> moves e c (ctx_after (dispatch e user_id intent params calls fs c))"
  unfolding dispatch_def
  by (auto simp: guarded_ctx balance_moves
      intro: send_transaction_moves nft_creation_moves disconnect_moves moves.intros)
     (auto simp: ctx_after_def intro: moves.intros)

lemma handle_message_moves:
  "moves e c (ctx_after (handle_message e user_id text fs c))"
proof -
  have a: "moves e c (ctx_after (d, acts, fs', c))" for d acts fs'
    by (simp add: ctx_after_def moves.stay)
  show ?thesis
  proof (cases "in_flow c")
    case True
    then show ?thesis
      unfolding handle_message_def Let_def
      by (auto simp: a in_flow_def conversation_moves split: prod.splits option.splits)
  next
    case False
    then have f: "\<not> (case state c of None \<Rightarrow> False | Some s \<Rightarrow> s \<noteq> [])"
      by (simp add: in_flow_def)
    show ?thesis
      unfolding handle_message_def Let_def
      using False
      by (auto simp: a f dispatch_moves split: prod.splits completion.splits pyval.splits
          option.splits)
  qed
qed

lemma moves_pending_with_state:
  "moves e c c' \<Longrightarrow> pending_with_state c \<Longrightarrow> pending_with_state c'"
  by (induction rule: moves.induct)
     (auto simp: pending_with_state_def empty_user_data_def enter_transaction_password_def
        in_flow_def split: option.splits)

lemma moves_truthy:
  "moves e c c' \<Longrightarrow> handles_nonempty e \<Longrightarrow>
   (\<forall>txn. pending_txn c = Some txn \<longrightarrow> truthy txn) \<Longrightarrow>
   (\<forall>txn. pending_txn c' = Some txn \<longrightarrow> truthy txn)"
  by (induction rule: moves.induct)
     (auto simp: empty_user_data_def enter_transaction_password_def)

lemma deliver_user:
  "snd (deliver (e, user_id, text) (fs, users)) u =
     (if u = user_id then ctx_after (handle_message e user_id text fs (users user_id)) else users u)"
  by (auto simp: deliver_def ctx_after_def split: prod.splits)

lemma fold_deliver_pending:
  "(\<forall>u. pending_with_state (snd b u)) \<Longrightarrow>
   pending_with_state (snd (fold deliver updates b) u)"
proof (induction updates arbitrary: b u)
  case Nil
  then show ?case by simp
next
  case (Cons x xs)
  obtain e user_id t where x: "x = (e, user_id, t)" by (cases x)
  obtain fs users where b: "b = (fs, users)" by (cases b)
  have "\<forall>u. pending_with_state (snd (deliver x b) u)"
    using Cons.prems x b
    by (auto simp: deliver_user intro: moves_pending_with_state[OF handle_message_moves])
  then show ?case using Cons.IH by simp
qed

lemma fold_deliver_truthy:
  "list_all (\<lambda>x. handles_nonempty (fst x)) updates \<Longrightarrow>
   (\<forall>u txn. pending_txn (snd b u) = Some txn \<longrightarrow> truthy txn) \<Longrightarrow>
   pending_txn (snd (fold deliver updates b) u) = Some txn \<Longrightarrow> truthy txn"
proof (induction updates arbitrary: b u txn)
  case Nil
  then show ?case by simp
next
  case (Cons x xs)
  obtain e user_id t where x: "x = (e, user_id, t)" by (cases x)
  obtain fs users where b: "b = (fs, users)" by (cases b)
  from Cons.prems(1) x have h: "handles_nonempty e" by simp
  have "\<forall>u txn. pending_txn (snd (deliver x b) u) = Some txn \<longrightarrow> truthy txn"
  proof (intro allI impI)
    fix u txn
    assume p: "pending_txn (snd (deliver x b) u) = Some txn"
    show "truthy txn"
    proof (cases "u = user_id")
      case True
      have "\<forall>txn. pending_txn (users user_id) = Some txn \<longrightarrow> truthy txn"
        using Cons.prems(2) b by simp
      from moves_truthy[OF handle_message_moves h this] p True x b
      show ?thesis by (simp add: deliver_user)
    next
      case False
      with p x b Cons.prems(2) show ?thesis by (simp add: deliver_user)
    qed
  qed
  with Cons.IH[of "deliver x b" u txn] Cons.prems show ?case by simp
qed

section \<open>Steps in the password state\<close>

lemma re_search_Cls: "re_search (Cls P) s = None \<longleftrightarrow> \<not> list_ex P s"
  by (induction s) (auto simp: re_match_def)



section \<open>Examples\<close>

lemma sanitize_examples:
  "sanitize_input (VStr (py ''wrong1'')) = py ''wrong1''"
  "sanitize_input (VStr (py ''wrong2'')) = py ''wrong2''"
  "sanitize_input (VStr (py ''wrong3'')) = py ''wrong3''"
  "sanitize_input (VStr (py ''hunter22'')) = py ''hunter22''"
  "sanitize_input (VStr (py ''short'')) = py ''short''"
  "sanitize_input (VStr (py ''lettersonly'')) = py ''lettersonly''"
  "sanitize_input (VStr (py ''one two three'')) = py ''one two three''"
  "sanitize_input (VStr (py ''check my balance'')) = py ''check my balance''"
  by (rule sanitize_plain; simp add: py_def plain_def is_control_def is_space_def)+

lemma example_env_handles: "handles_nonempty example_env"
  by (simp add: handles_nonempty_def example_env_def dict_get_def py_def)


lemma example_signing:
  "sign_transaction example_env (VObj 7) (py ''wrong1'') = None"
  "sign_transaction example_env (VObj 7) (py ''wrong2'') = None"
  "sign_transaction example_env (VObj 7) (py ''wrong3'') = None"
  "sign_transaction example_env (VObj 7) (py ''hunter22'') = Some (VObj 8)"
  "get_algod_client example_env"
  "send_transaction example_env (VObj 8) = Some (VStr (py ''TXID''))"
  by (simp_all add: example_env_def py_def)

lemma example_env_fields:
  "uni example_env = \<lparr>decimal_beyond_ascii = (\<lambda>c. False), word_beyond_ascii = (\<lambda>c. False)\<rparr>"
  "create_wallet example_env p = Some example_wallet"
  "unix_time example_env = 1700000000"
  "api_key example_env = False"
  "disk_wallet example_env = True"
  "now_created example_env = 14"
  "now_stamped example_env = 15"
  by (simp_all add: example_env_def)

section \<open>Password attempts\<close>



section \<open>Password of a new wallet\<close>

lemma weak_password_reply:
  assumes "length p < 8 \<or> \<not> list_ex ascii_letter p \<or> \<not> list_ex (is_decimal (uni e)) p"
  shows "handle_wallet_creation_password e user_id p fs c
         = (Returned,
            [Reply (if length p < 8 then PasswordTooShort else PasswordNeedsLettersNumbers)],
            fs, c)"
  using assms
  by (auto simp: handle_wallet_creation_password_def cls_def re_search_Cls)

lemma strong_password_calls:
  assumes "\<not> (length p < 8 \<or> \<not> list_ex ascii_letter p \<or> \<not> list_ex (is_decimal (uni e)) p)"
  shows "Call (CreateWallet p) \<in> set (actions (handle_wallet_creation_password e user_id p fs c))"
  using assms
  by (auto simp: handle_wallet_creation_password_def cls_def re_search_Cls actions_def Let_def
      split: option.splits prod.splits loaded.splits)

lemma wallet_creation_calls:
  "Call (CreateWallet pw) \<in> set (actions (handle_wallet_creation_password e user_id p fs c)) \<Longrightarrow>
   pw = p \<and> 8 \<le> length p \<and> list_ex ascii_letter p \<and> list_ex (is_decimal (uni e)) p"
  by (auto simp: handle_wallet_creation_password_def cls_def re_search_Cls actions_def Let_def
      split: option.splits prod.splits if_splits loaded.splits)


text \<open>
  Claim C10. \<open>handle_wallet_creation_password\<close> is the handler of the state
  \<^verbatim>\<open>creating_wallet\<close>. If the password is shorter than 8 code points, or holds no letter
  \<^verbatim>\<open>[A-Za-z]\<close>, or holds no digit \<^verbatim>\<open>\d\<close>, the only action is one error reply: no
  collaborator is called, the files (so every session record) are as before, and the
  \<^verbatim>\<open>user_data\<close> stays as it is, state included. Whenever \<^verbatim>\<open>create_wallet\<close> is called, it
  is called with that password, and the password has at least 8 code points, a letter and a
  digit; and for such a password it is called.
\<close>

theorem weak_password_rejected:
  "(length p < 8 \<or> \<not> list_ex ascii_letter p \<or> \<not> list_ex (is_decimal (uni e)) p \<longrightarrow>
      (\<exists>r. actions (handle_wallet_creation_password e user_id p fs c) = [Reply r]
           \<and> error_feedback r)
      \<and> \<not> list_ex is_call (actions (handle_wallet_creation_password e user_id p fs c))
      \<and> files_after (handle_wallet_creation_password e user_id p fs c) = fs
      \<and> ctx_after (handle_wallet_creation_password e user_id p fs c) = c
      \<and> state (ctx_after (handle_wallet_creation_password e user_id p fs c)) = state c)
   \<and> (\<forall>pw. Call (CreateWallet pw)
               \<in> set (actions (handle_wallet_creation_password e user_id p fs c)) \<longrightarrow>
         pw = p \<and> 8 \<le> length p \<and> list_ex ascii_letter p \<and> list_ex (is_decimal (uni e)) p)
   \<and> (8 \<le> length p \<and> list_ex ascii_letter p \<and> list_ex (is_decimal (uni e)) p \<longrightarrow>
         Call (CreateWallet p)
           \<in> set (actions (handle_wallet_creation_password e user_id p fs c)))"
proof (intro conjI impI allI)
  assume w: "length p < 8 \<or> \<not> list_ex ascii_letter p \<or> \<not> list_ex (is_decimal (uni e)) p"
  note r = weak_password_reply[OF w, of user_id fs c]
  show "\<exists>r. actions (handle_wallet_creation_password e user_id p fs c) = [Reply r]
            \<and> error_feedback r"
    by (simp add: r actions_def)
  show "\<not> list_ex is_call (actions (handle_wallet_creation_password e user_id p fs c))"
    by (simp add: r actions_def)
  show "files_after (handle_wallet_creation_password e user_id p fs c) = fs"
    by (simp add: r files_after_def)
  show "ctx_after (handle_wallet_creation_password e user_id p fs c) = c"
    by (simp add: r ctx_after_def)
  show "state (ctx_after (handle_wallet_creation_password e user_id p fs c)) = state c"
    by (simp add: r ctx_after_def)
next
  fix pw
  assume "Call (CreateWallet pw)
            \<in> set (actions (handle_wallet_creation_password e user_id p fs c))"
  then have "pw = p \<and> 8 \<le> length p \<and> list_ex ascii_letter p
             \<and> list_ex (is_decimal (uni e)) p"
    by (rule wallet_creation_calls)
  then show "pw = p" "8 \<le> length p" "list_ex ascii_letter p" "list_ex (is_decimal (uni e)) p"
    by simp_all
next
  assume "8 \<le> length p \<and> list_ex ascii_letter p \<and> list_ex (is_decimal (uni e)) p"
  then have "\<not> (length p < 8 \<or> \<not> list_ex ascii_letter p \<or> \<not> list_ex (is_decimal (uni e)) p)"
    by auto
  then show "Call (CreateWallet p)
               \<in> set (actions (handle_wallet_creation_password e user_id p fs c))"
    by (rule strong_password_calls)
qed

theorem weak_password_rejected_witness:
  "ctx_after (handle_wallet_creation_password example_env 42 (py ''short'') Map.empty
                creating_wallet) = creating_wallet
   \<and> files_after (handle_wallet_creation_password example_env 42 (py ''short'') Map.empty
                creating_wallet) = Map.empty
   \<and> \<not> list_ex is_call (actions (handle_wallet_creation_password example_env 42
                (py ''lettersonly'') Map.empty creating_wallet))
   \<and> Call (CreateWallet (py ''hunter22''))
       \<in> set (actions (handle_wallet_creation_password example_env 42 (py ''hunter22'')
                        Map.empty creating_wallet))"
proof -
  note a = weak_password_rejected
    [where p = "py ''short''" and e = example_env and user_id = 42 and fs = Map.empty
       and c = creating_wallet]
  note b = weak_password_rejected
    [where p = "py ''lettersonly''" and e = example_env and user_id = 42 and fs = Map.empty
       and c = creating_wallet]
  note c = weak_password_rejected
    [where p = "py ''hunter22''" and e = example_env and user_id = 42 and fs = Map.empty
       and c = creating_wallet]
  have s: "length (py ''short'') < 8" by (simp add: py_def)
  have l: "\<not> list_ex (is_decimal (uni example_env)) (py ''lettersonly'')"
    by (simp add: example_env_fields(1) py_def is_decimal_def ascii_digit_def)
  have h: "8 \<le> length (py ''hunter22'')" "list_ex ascii_letter (py ''hunter22'')"
    "list_ex (is_decimal (uni example_env)) (py ''hunter22'')"
    by (simp_all add: example_env_fields(1) py_def is_decimal_def ascii_digit_def
        ascii_letter_def)
  from a s have 1: "ctx_after (handle_wallet_creation_password example_env 42 (py ''short'')
      Map.empty creating_wallet) = creating_wallet"
    "files_after (handle_wallet_creation_password example_env 42 (py ''short'') Map.empty
                creating_wallet) = Map.empty"
    by blast+
  from b l have 2: "\<not> list_ex is_call (actions (handle_wallet_creation_password example_env 42
                (py ''lettersonly'') Map.empty creating_wallet))"
    by blast
  from c h have 3: "Call (CreateWallet (py ''hunter22''))
       \<in> set (actions (handle_wallet_creation_password example_env 42 (py ''hunter22'')
                        Map.empty creating_wallet))"
    by blast
  from 1 2 3 show ?thesis by simp
qed

section \<open>Validation failures\<close>




section \<open>Balance without a session\<close>

lemma load_sessions_again:
  "load_sessions unix fs = (Some (Sessions m), fs1) \<Longrightarrow>
   load_sessions unix' fs1 = (Some (Sessions m), fs1)"
  by (auto simp: load_sessions_def split: option.splits content.splits)

lemma general_rate_limit:
  "load_sessions unix fs = (Some (Sessions m), fs1) \<Longrightarrow>
   check_user_rate_limit unix now disk user_id ''general'' fs = (Some True, fs1)"
  by (auto simp: check_user_rate_limit_def split: option.splits)

lemma validate_no_session:
  "load_sessions unix fs = (Some (Sessions m), fs1) \<Longrightarrow> m user_id = None \<Longrightarrow>
   validate_session unix t1 t2 disk user_id fs = (Some False, fs1)"
  by (auto simp: validate_session_def)

lemma balance_nft_none:
  "list_all (\<lambda>p. re_search p (py ''check my balance'') = None) nft_patterns"
  by (simp add: nft_patterns_def nft_tail_def verb_group_def re_eval ci_eq_def ci_fold_def
      ascii_lower_def)

lemma balance_send_none:
  "re_search (send_pattern U) (py ''check my balance'') = None"
  by (simp add: send_pattern_def re_eval address_group_bt ci_eq_def ci_fold_def
      ascii_lower_def is_space_def is_decimal_def decimal_or_dot_def ascii_digit_def
      is_word_def ascii_letter_def)

lemma balance_fallback_none:
  "model_unavailable e (py ''check my balance'') \<Longrightarrow>
   resolve_intent e (py ''check my balance'')
     = (Returned, fst (ai_parse e (py ''check my balance'')), VNone)"
proof -
  assume u: "model_unavailable e (py ''check my balance'')"
  have ne: "py ''check my balance'' \<noteq> []" by (simp add: py_def)
  have n: "parse_nft_command_fallback (VStr (py ''check my balance'')) = VNone"
    using nft_loop_none[OF balance_nft_none] ne
    by (simp add: parse_nft_command_fallback_def sanitize_examples Let_def)
  have s: "parse_send_command_fallback e (VStr (py ''check my balance'')) = VNone"
    using ne
    by (simp add: parse_send_command_fallback_def sanitize_examples balance_send_none Let_def)
  show ?thesis
    using resolve_unavailable[OF u] by (simp add: n s)
qed

lemma balance_steps_text:
  assumes "load_sessions (unix_time e) fs = (Some (Sessions m), fs1)"
    and "m user_id = None"
    and "\<not> in_flow c"
    and "sanitize_input t = s" and "s \<noteq> []"
  shows "(api_key e
          \<and> chat_completion e s = Some content
          \<and> extract_json e content = VDict d
          \<and> dict_get d ''intent'' = Some (VStr (py ''balance'')) \<longrightarrow>
            handle_message e user_id t fs c
              = (Returned, [Call (LanguageModel s), Reply ConnectWalletFirst], fs1, c))
         \<and> (resolve_intent e s = (Returned, calls, VNone) \<longrightarrow>
            handle_message e user_id t fs c
              = (Returned, calls @ [Reply NotUnderstood], fs1, c))"
proof (intro conjI impI)
  have f: "\<not> (case state c of None \<Rightarrow> False | Some s \<Rightarrow> s \<noteq> [])"
    using assms(3) by (simp add: in_flow_def)
  note g = general_rate_limit[OF assms(1)]
  note l = load_sessions_again[OF assms(1)]
  {
    assume a: "api_key e
          \<and> chat_completion e s = Some content
          \<and> extract_json e content = VDict d
          \<and> dict_get d ''intent'' = Some (VStr (py ''balance''))"
    then have d: "d \<noteq> []" by (auto simp: dict_get_def)
    have r: "resolve_intent e s = (Returned, [Call (LanguageModel s)], VDict d)"
      using a d by (simp add: resolve_intent_def ai_parse_def Let_def py_def)
    have b: "handle_balance_check e user_id fs1 c
             = (Returned, [Reply ConnectWalletFirst], fs1, c)"
      by (simp add: handle_balance_check_def validate_no_session[OF l assms(2)])
    show "handle_message e user_id t fs c
            = (Returned, [Call (LanguageModel s), Reply ConnectWalletFirst], fs1, c)"
      using a d f assms(4,5)
      by (simp add: handle_message_def g Let_def r dispatch_def guarded_def b py_def)
  }
  {
    assume u: "resolve_intent e s = (Returned, calls, VNone)"
    show "handle_message e user_id t fs c
            = (Returned, calls @ [Reply NotUnderstood], fs1, c)"
      using f assms(4,5)
      by (simp add: handle_message_def g Let_def u)
  }
qed

lemma balance_steps:
  assumes "load_sessions (unix_time e) fs = (Some (Sessions m), fs1)"
    and "m user_id = None"
    and "\<not> in_flow c"
  shows "(api_key e
          \<and> chat_completion e (py ''check my balance'') = Some content
          \<and> extract_json e content = VDict d
          \<and> dict_get d ''intent'' = Some (VStr (py ''balance'')) \<longrightarrow>
            handle_message e user_id (VStr (py ''check my balance'')) fs c
              = (Returned,
                 [Call (LanguageModel (py ''check my balance'')), Reply ConnectWalletFirst],
                 fs1, c))
         \<and> (model_unavailable e (py ''check my balance'') \<longrightarrow>
            handle_message e user_id (VStr (py ''check my balance'')) fs c
              = (Returned, fst (ai_parse e (py ''check my balance'')) @ [Reply NotUnderstood],
                 fs1, c))"
proof -
  have ne: "py ''check my balance'' \<noteq> []" by (simp add: py_def)
  note t = balance_steps_text[OF assms sanitize_examples(8) ne,
      where content = content and d = d
        and calls = "fst (ai_parse e (py ''check my balance''))"]
  show ?thesis
    using t balance_fallback_none[of e] by blast
qed

lemma example_env_balance_fields:
  "api_key example_env_balance"
  "chat_completion example_env_balance s = Some balance_json"
  "extract_json example_env_balance balance_json
     = VDict [(py ''intent'', VStr (py ''balance'')), (py ''parameters'', VDict [])]"
  "unix_time example_env_balance = 1700000000"
  by (simp_all add: example_env_balance_def example_env_def extract_json_def balance_json_def
      py_rfind_def py_slice_def Let_def)

lemma example_loads:
  "load_sessions 1700000000 Map.empty = (Some (Sessions Map.empty), Map.empty)"
  "load_sessions 1700000000 (example_files 7 (example_session 0 None))
     = (Some (Sessions [7 \<mapsto> example_session 0 None]), example_files 7 (example_session 0 None))"
  by (simp_all add: load_sessions_def example_files_def)

lemma idle_empty: "\<not> in_flow empty_user_data"
  by (simp add: in_flow_def empty_user_data_def)

text \<open>
  Claim C5, as worded, fails. \<open>handle_message\<close> gives every message of an idle user to
  the language model before anything else. When the model answers with the intent
  \<^verbatim>\<open>balance\<close>, a user without a session is told to connect a wallet first, but the
  language-understanding collaborator has been called. When no API key is set, no
  collaborator is called, but the fallback matchers know only the NFT and the send
  commands: the reply is "I didn't understand that command", not "connect a wallet first".
\<close>

theorem balance_calls_language_model:
  "actions (handle_message example_env_balance 42 (VStr (py ''check my balance'')) Map.empty
              empty_user_data)
     = [Call (LanguageModel (py ''check my balance'')), Reply ConnectWalletFirst]
   \<and> actions (handle_message example_env 42 (VStr (py ''check my balance'')) Map.empty
              empty_user_data)
     = [Reply NotUnderstood]"
proof -
  have d: "dict_get [(py ''intent'', VStr (py ''balance'')), (py ''parameters'', VDict [])]
             ''intent'' = Some (VStr (py ''balance''))"
    by (simp add: dict_get_def py_def)
  have u: "model_unavailable example_env (py ''check my balance'')"
    by (simp add: model_unavailable_def example_env_fields)
  have p: "fst (ai_parse example_env (py ''check my balance'')) = []"
    by (simp add: ai_parse_def example_env_fields)
  have l1: "load_sessions (unix_time example_env_balance) Map.empty
            = (Some (Sessions Map.empty), Map.empty)"
    by (simp add: example_env_balance_fields example_loads)
  have l2: "load_sessions (unix_time example_env) Map.empty
            = (Some (Sessions Map.empty), Map.empty)"
    by (simp add: example_env_fields example_loads)
  have e: "Map.empty (42::int) = (None :: session option)" by simp
  note a = balance_steps[OF l1 e idle_empty,
      where content = balance_json
        and d = "[(py ''intent'', VStr (py ''balance'')), (py ''parameters'', VDict [])]"]
  note b = balance_steps[OF l2 e idle_empty,
      where content = balance_json
        and d = "[(py ''intent'', VStr (py ''balance'')), (py ''parameters'', VDict [])]"]
  from a have 1: "handle_message example_env_balance 42 (VStr (py ''check my balance''))
      Map.empty empty_user_data
     = (Returned, [Call (LanguageModel (py ''check my balance'')), Reply ConnectWalletFirst],
        Map.empty, empty_user_data)"
    by (simp add: example_env_balance_fields d)
  from b u have 2: "handle_message example_env 42 (VStr (py ''check my balance''))
      Map.empty empty_user_data
     = (Returned, [Reply NotUnderstood], Map.empty, empty_user_data)"
    by (simp add: p)
  show ?thesis by (simp add: 1 2 actions_def)
qed

text \<open>
  Claim C5, amended. Let the store load to a mapping that has no record of the user, and
  let the user be idle. When the language model resolves the message "check my balance"
  to the intent \<^verbatim>\<open>balance\<close>, the language model is the only collaborator called and the
  reply is "Please connect a wallet first!". When the language model is unavailable (no
  API key, or the call raises), the reply is "I didn't understand that command". In both
  cases no wallet or ledger collaborator is called, the \<^verbatim>\<open>user_data\<close> is unchanged, and
  the files are those the load has left.
\<close>

theorem balance_without_session:
  assumes "load_sessions (unix_time e) fs = (Some (Sessions m), fs1)"
    and "m user_id = None"
    and "\<not> in_flow c"
  shows "(api_key e
          \<and> chat_completion e (py ''check my balance'') = Some content
          \<and> extract_json e content = VDict d
          \<and> dict_get d ''intent'' = Some (VStr (py ''balance'')) \<longrightarrow>
            handle_message e user_id (VStr (py ''check my balance'')) fs c
              = (Returned,
                 [Call (LanguageModel (py ''check my balance'')), Reply ConnectWalletFirst],
                 fs1, c))
         \<and> (model_unavailable e (py ''check my balance'') \<longrightarrow>
            handle_message e user_id (VStr (py ''check my balance'')) fs c
              = (Returned, fst (ai_parse e (py ''check my balance'')) @ [Reply NotUnderstood],
                 fs1, c))"
  using balance_steps [OF assms] .

theorem balance_without_session_witness:
  "handle_message example_env_balance 42 (VStr (py ''check my balance''))
      (example_files 7 (example_session 0 None)) empty_user_data
     = (Returned, [Call (LanguageModel (py ''check my balance'')), Reply ConnectWalletFirst],
        example_files 7 (example_session 0 None), empty_user_data)
   \<and> handle_message example_env 42 (VStr (py ''check my balance''))
      (example_files 7 (example_session 0 None)) empty_user_data
     = (Returned, [Reply NotUnderstood], example_files 7 (example_session 0 None),
        empty_user_data)"
proof -
  have d: "dict_get [(py ''intent'', VStr (py ''balance'')), (py ''parameters'', VDict [])]
             ''intent'' = Some (VStr (py ''balance''))"
    by (simp add: dict_get_def py_def)
  have u: "model_unavailable example_env (py ''check my balance'')"
    by (simp add: model_unavailable_def example_env_fields)
  have p: "fst (ai_parse example_env (py ''check my balance'')) = []"
    by (simp add: ai_parse_def example_env_fields)
  have l1: "load_sessions (unix_time example_env_balance)
              (example_files 7 (example_session 0 None))
            = (Some (Sessions [7 \<mapsto> example_session 0 None]),
               example_files 7 (example_session 0 None))"
    by (simp add: example_env_balance_fields example_loads)
  have l2: "load_sessions (unix_time example_env) (example_files 7 (example_session 0 None))
            = (Some (Sessions [7 \<mapsto> example_session 0 None]),
               example_files 7 (example_session 0 None))"
    by (simp add: example_env_fields example_loads)
  have e: "[7 \<mapsto> example_session 0 None] (42::int) = None" by simp
  note a = balance_without_session[OF l1 e idle_empty,
      where content = balance_json
        and d = "[(py ''intent'', VStr (py ''balance'')), (py ''parameters'', VDict [])]"]
  note b = balance_without_session[OF l2 e idle_empty,
      where content = balance_json
        and d = "[(py ''intent'', VStr (py ''balance'')), (py ''parameters'', VDict [])]"]
  from a have 1: "handle_message example_env_balance 42 (VStr (py ''check my balance''))
      (example_files 7 (example_session 0 None)) empty_user_data
     = (Returned, [Call (LanguageModel (py ''check my balance'')), Reply ConnectWalletFirst],
        example_files 7 (example_session 0 None), empty_user_data)"
    by (simp add: example_env_balance_fields d)
  from b u have 2: "handle_message example_env 42 (VStr (py ''check my balance''))
      (example_files 7 (example_session 0 None)) empty_user_data
     = (Returned, [Reply NotUnderstood], example_files 7 (example_session 0 None),
        empty_user_data)"
    by (simp add: p)
  show ?thesis by (simp add: 1 2)
qed

section \<open>A run into the password state\<close>

lemma sanitize_send_text:
  assumes "validate_algorand_address (VStr addr)"
  shows "sanitize_input (VStr (py ''send 5 algo to '' @ addr)) = py ''send 5 algo to '' @ addr"
proof -
  from assms have len: "length addr = 58" and b32: "list_all base32 addr"
    by (simp_all add: validate_algorand_address_iff)
  note f = base32_facts[OF b32]
  have ne: "addr \<noteq> []" using len by auto
  have last: "\<not> is_space (last addr)"
    using f(2) ne by (simp add: list_all_iff)
  show ?thesis
    using len f(3) ne last
    by (intro sanitize_plain) (simp_all add: py_def plain_def is_control_def is_space_def)
qed

lemma example_env_clock:
  "now_general example_env = 10" "now_expiry example_env = 11" "now_activity example_env = 12"
  "now_transaction example_env = 13" "disk_validate example_env" "disk_rate example_env"
  "build_and_send_transaction example_env s r a
     = Some (VDict [(py ''status'', VStr (py ''awaiting_approval'')),
                    (py ''unsigned_txn'', VObj 7)])"
  by (simp_all add: example_env_def)

lemma example_send_transaction:
  "handle_send_transaction example_env 42
     (VDict [(py ''amount'', VNum (Fin 5)), (py ''recipient'', VStr example_address)])
     (example_files 42 (example_session 0 None)) c
   = (Returned,
      [Call GetAlgodClient,
       Call (BuildAndSendTransaction (VStr (py ''ADDR'')) (VStr example_address) (VNum (Fin 5))),
       Reply (ConfirmTransaction (VNum (Fin 5)) (VStr example_address))],
      example_files 42 ((example_session 0 None)
        \<lparr>last_activity := Some 12, recent_transactions := Some [13]\<rparr>),
      enter_transaction_password (VObj 7) ''send'' c)"
proof -
  let ?s0 = "example_session 0 None"
  let ?s1 = "?s0\<lparr>last_activity := Some 12\<rparr>"
  let ?s2 = "?s0\<lparr>last_activity := Some 12, recent_transactions := Some [13]\<rparr>"
  have v: "validate_session 1700000000 11 12 True 42 (example_files 42 ?s0)
           = (Some True, example_files 42 ?s1)"
    by (simp add: validate_session_def load_sessions_def save_sessions_def example_files_def
        example_session_def hours_def SESSION_TIMEOUT_HOURS_def fun_upd_twist)
  have r: "check_user_rate_limit 1700000000 13 True 42 ''transaction'' (example_files 42 ?s1)
           = (Some True, example_files 42 ?s2)"
    by (simp add: check_user_rate_limit_def load_sessions_def save_sessions_def
        example_files_def example_session_def hours_def MAX_TRANSACTIONS_PER_HOUR_def
        fun_upd_twist Let_def)
  have l: "load_sessions 1700000000 (example_files 42 ?s2)
           = (Some (Sessions [42 \<mapsto> ?s2]), example_files 42 ?s2)"
    by (simp add: load_sessions_def example_files_def)
  have p: "has_required_params
             (VDict [(py ''amount'', VNum (Fin 5)), (py ''recipient'', VStr example_address)])
           = Some True"
    "dict_get [(py ''amount'', VNum (Fin 5)), (py ''recipient'', VStr example_address)]
       ''recipient'' = Some (VStr example_address)"
    "dict_get [(py ''amount'', VNum (Fin 5)), (py ''recipient'', VStr example_address)]
       ''amount'' = Some (VNum (Fin 5))"
    "\<not> out_of_range (Fin 5)"
    by (simp_all add: has_required_params_def dict_get_def py_def out_of_range_def)
  have a: "address ?s2 = VStr (py ''ADDR'')"
    by (simp add: example_session_def)
  have d: "awaiting_approval [(py ''status'', VStr (py ''awaiting_approval'')),
                              (py ''unsigned_txn'', VObj 7)]"
    "dict_get [(py ''status'', VStr (py ''awaiting_approval'')), (py ''unsigned_txn'', VObj 7)]
       ''unsigned_txn'' = Some (VObj 7)"
    by (simp_all add: awaiting_approval_def dict_get_def py_def)
  show ?thesis
    by (simp add: handle_send_transaction_def example_env_fields example_env_clock
        example_signing(5) v r l p a d example_address_valid Let_def)
qed

lemma example_send_message:
  "handle_message example_env 42 example_send (example_files 42 (example_session 0 None))
     empty_user_data
   = (Returned,
      [Call GetAlgodClient,
       Call (BuildAndSendTransaction (VStr (py ''ADDR'')) (VStr example_address) (VNum (Fin 5))),
       Reply (ConfirmTransaction (VNum (Fin 5)) (VStr example_address))],
      example_files 42 ((example_session 0 None)
        \<lparr>last_activity := Some 12, recent_transactions := Some [13]\<rparr>),
      enter_transaction_password (VObj 7) ''send'' empty_user_data)"
proof -
  let ?t = "py ''send 5 algo to '' @ example_address"
  have san: "sanitize_input example_send = ?t"
    unfolding example_send_def by (rule sanitize_send_text[OF example_address_valid])
  have ne: "?t \<noteq> []" by (simp add: py_def)
  have u: "model_unavailable example_env s" for s
    by (simp add: model_unavailable_def example_env_fields)
  have p: "fst (ai_parse example_env s) = []" for s
    by (simp add: ai_parse_def example_env_fields)
  have res: "resolve_intent example_env ?t = (Returned, [], send_intent (Fin 5) example_address)"
    using send_fallback_resolves[OF example_address_valid u u] by (simp add: p)
  have l: "load_sessions 1700000000 (example_files 42 (example_session 0 None))
           = (Some (Sessions [42 \<mapsto> example_session 0 None]),
              example_files 42 (example_session 0 None))"
    by (simp add: load_sessions_def example_files_def)
  have g: "check_user_rate_limit 1700000000 10 True 42 ''general''
             (example_files 42 (example_session 0 None))
           = (Some True, example_files 42 (example_session 0 None))"
    by (rule general_rate_limit[OF l])
  have i: "truthy (send_intent (Fin 5) example_address)"
    "dict_get [(py ''intent'', VStr (py ''send_algo'')),
               (py ''parameters'',
                VDict [(py ''amount'', VNum (Fin 5)), (py ''recipient'', VStr example_address)])]
       ''intent'' = Some (VStr (py ''send_algo''))"
    "dict_get [(py ''intent'', VStr (py ''send_algo'')),
               (py ''parameters'',
                VDict [(py ''amount'', VNum (Fin 5)), (py ''recipient'', VStr example_address)])]
       ''parameters''
     = Some (VDict [(py ''amount'', VNum (Fin 5)), (py ''recipient'', VStr example_address)])"
    by (simp_all add: send_intent_def dict_get_def py_def)
  have di: "dispatch example_env 42 (VStr (py ''send_algo''))
              (VDict [(py ''amount'', VNum (Fin 5)), (py ''recipient'', VStr example_address)])
              [] (example_files 42 (example_session 0 None)) empty_user_data
            = handle_send_transaction example_env 42
                (VDict [(py ''amount'', VNum (Fin 5)), (py ''recipient'', VStr example_address)])
                (example_files 42 (example_session 0 None)) empty_user_data"
    by (simp add: dispatch_def example_send_transaction guarded_def) (simp add: py_def)
  have id: "state empty_user_data = None" by (simp add: empty_user_data_def)
  show ?thesis
    using ne
    by (simp add: handle_message_def san example_env_fields example_env_clock g res i(1) Let_def
        id)
       (simp add: send_intent_def i(2,3) di example_send_transaction)
qed

lemma example_send_run:
  "snd (run [(example_env, 42, example_send)] (example_files 42 (example_session 0 None))) 42
   = enter_transaction_password (VObj 7) ''send'' empty_user_data"
  by (simp add: run_def deliver_def example_send_message)

section \<open>Pending transaction and password state\<close>

text \<open>
  Claim C2. After any sequence of updates, for every user, \<^verbatim>\<open>pending_txn\<close> is present
  exactly when the state is \<^verbatim>\<open>transaction_password\<close>: the handlers that enter the state
  store the handle in the same step, every way out of the state clears the dictionary, and
  no other state is entered with a handle. When the ledger collaborator keeps its side of
  the protocol (a result that asks for approval carries a handle that is not empty), the
  handle is present and not empty exactly in that state.
\<close>

theorem pending_txn_iff_transaction_password:
  "(pending_txn (snd (run updates fs) user_id) \<noteq> None)
     = (state (snd (run updates fs) user_id) = Some ''transaction_password'')
   \<and> (list_all (\<lambda>u. handles_nonempty (fst u)) updates \<longrightarrow>
        has_pending (snd (run updates fs) user_id)
          = (state (snd (run updates fs) user_id) = Some ''transaction_password''))"
proof -
  let ?c = "snd (run updates fs) user_id"
  have init: "\<forall>u. pending_with_state (snd (fs, \<lambda>user_id. empty_user_data) u)"
    by (simp add: pending_with_state_def empty_user_data_def)
  have 1: "pending_with_state ?c"
    unfolding run_def by (rule fold_deliver_pending[OF init])
  have 2: "truthy txn"
    if "list_all (\<lambda>u. handles_nonempty (fst u)) updates" "pending_txn ?c = Some txn" for txn
    using fold_deliver_truthy[OF that(1), of "(fs, \<lambda>user_id. empty_user_data)" user_id txn] that(2)
    by (simp add: run_def empty_user_data_def)
  show ?thesis
    using 1 2 by (auto simp: pending_with_state_def has_pending_def split: option.splits)
qed

theorem pending_txn_iff_transaction_password_witness:
  "list_all (\<lambda>u. handles_nonempty (fst u)) [(example_env, 42, example_send)]
   \<and> state (snd (run [(example_env, 42, example_send)]
                  (example_files 42 (example_session 0 None))) 42)
     = Some ''transaction_password''
   \<and> has_pending (snd (run [(example_env, 42, example_send)]
                        (example_files 42 (example_session 0 None))) 42)
   \<and> \<not> has_pending (snd (run [(example_env, 42, example_send)]
                          (example_files 42 (example_session 0 None))) 7)
   \<and> pending_txn (snd (run [] (example_files 42 (example_session 0 None))) 42) = None"
proof -
  let ?fs = "example_files 42 (example_session 0 None)"
  note a = pending_txn_iff_transaction_password
    [where updates = "[(example_env, 42, example_send)]" and fs = ?fs and user_id = 42]
  note b = pending_txn_iff_transaction_password
    [where updates = "[(example_env, 42, example_send)]" and fs = ?fs and user_id = 7]
  note c = pending_txn_iff_transaction_password
    [where updates = "[]" and fs = ?fs and user_id = 42]
  have h: "list_all (\<lambda>u. handles_nonempty (fst u)) [(example_env, 42, example_send)]"
    by (simp add: example_env_handles)
  have s: "state (snd (run [(example_env, 42, example_send)] ?fs) 42)
           = Some ''transaction_password''"
    by (simp add: example_send_run enter_transaction_password_def)
  have r7: "snd (run [(example_env, 42, example_send)] ?fs) 7 = empty_user_data"
    by (simp add: run_def deliver_def example_send_message)
  have s7: "state (snd (run [(example_env, 42, example_send)] ?fs) 7)
            \<noteq> Some ''transaction_password''"
    by (simp add: r7 empty_user_data_def)
  have s0: "state (snd (run [] ?fs) 42) \<noteq> Some ''transaction_password''"
    by (simp add: run_def empty_user_data_def)
  from a h s have 1: "has_pending (snd (run [(example_env, 42, example_send)] ?fs) 42)"
    by blast
  from b h s7 have 2: "\<not> has_pending (snd (run [(example_env, 42, example_send)] ?fs) 7)"
    by blast
  from c s0 have 3: "pending_txn (snd (run [] ?fs) 42) = None"
    by blast
  from h s 1 2 3 show ?thesis by blast
qed

end
